theory Spec2Isabelle
  imports Complex_Main
begin

section \<open>Python values used by the request handlers\<close>

text \<open>
  The handlers \<open>upload_file\<close> and \<open>sample\<close> of \<open>geo_measurement_app.py\<close> do no
  arithmetic on floats: they parse them, pass them on and store them. A float is
  modelled by the number it denotes, with the three special values \<open>float()\<close> can return.
\<close>

datatype pyfloat = Fin real | PosInf | NegInf | NaN

text \<open>An exception: its class name and \<open>str(e)\<close>.\<close>

datatype py_exception = PyExc string string

fun exc_str :: "py_exception \<Rightarrow> string" where
  "exc_str (PyExc cls msg) = msg"

text \<open>What \<open>json.loads\<close> returns; Python's \<open>None\<close> is \<open>JNull\<close>.\<close>

datatype json_value =
    JNull
  | JBool bool
  | JInt int
  | JFloat pyfloat
  | JString string
  | JArray "json_value list"
  | JObject "(string \<times> json_value) list"

text \<open>
  The value under the keys \<open>width_mm\<close> and \<open>height_mm\<close>, and of the template
  variables \<open>width\<close> and \<open>height\<close>: a string or a number.
\<close>

datatype cell = Text string | Number pyfloat

section \<open>Categories\<close>

record category_entry =
  cat_id :: string
  cat_name :: string
  cat_color :: string

definition DEFAULT_CATEGORIES :: "category_entry list" where
  "DEFAULT_CATEGORIES =
    [\<lparr>cat_id = ''furniture'', cat_name = ''Furniture'', cat_color = ''#4285F4''\<rparr>,
     \<lparr>cat_id = ''electronics'', cat_name = ''Electronics'', cat_color = ''#34A853''\<rparr>,
     \<lparr>cat_id = ''clothing'', cat_name = ''Clothing'', cat_color = ''#FBBC05''\<rparr>,
     \<lparr>cat_id = ''kitchenware'', cat_name = ''Kitchenware'', cat_color = ''#EA4335''\<rparr>,
     \<lparr>cat_id = ''tools'', cat_name = ''Tools'', cat_color = ''#8F44AD''\<rparr>,
     \<lparr>cat_id = ''toys'', cat_name = ''Toys'', cat_color = ''#F39C12''\<rparr>,
     \<lparr>cat_id = ''other'', cat_name = ''Other'', cat_color = ''#7F8C8D''\<rparr>]"

section \<open>The measurement record and the record store\<close>

text \<open>
  The dictionary \<open>measurement_data\<close>, one field per key, in the order of the source.
  The keys \<open>id\<close> and \<open>notes\<close> are the fields \<open>id'\<close> and \<open>notes'\<close>.
\<close>

record measurement =
  id' :: string
  timestamp :: string
  image_filename :: string
  output_filename :: string
  reference_size_mm :: pyfloat
  width_mm :: cell
  height_mm :: cell
  object_name :: string
  notes' :: string
  category :: string
  category_data :: "category_entry option"
  latitude :: "pyfloat option"
  longitude :: "pyfloat option"
  accuracy :: "pyfloat option"
  weather_data :: json_value

text \<open>
  The file \<open>results/measurements.json\<close>. \<open>Json_list ms\<close>: the file holds a JSON list,
  here of records this application wrote. \<open>Broken e\<close>: opening the file, \<open>json.load\<close>
  or \<open>measurements.append\<close> raises \<open>e\<close> (file missing, not JSON, not a list).
\<close>

datatype store_file = Json_list "measurement list" | Broken py_exception

text \<open>
  What writing the store back does. \<open>Open_raises e\<close>: \<open>open(..., 'w')\<close> raises and the
  file is untouched. \<open>Dump_raises e later\<close>: the file was truncated by \<open>open\<close> and
  \<open>json.dump\<close> raises \<open>e\<close> part-way, leaving text that a later \<open>json.load\<close> rejects
  with \<open>later\<close>.
\<close>

datatype write_outcome =
    Write_ok
  | Open_raises py_exception
  | Dump_raises py_exception py_exception

section \<open>The measurement engine, as the handlers see it\<close>

text \<open>
  Modelled from the spec: \<open>measure_object\<close> is imported from the module
  \<open>measure_object_simple\<close>, which is not among the sources. The handlers call it and
  discard what it returns. Its result type follows the spec's engine boundary: a
  \<open>MeasurementResult\<close> or one of the typed failures; it writes the annotated image to the
  single fixed output location and may print to the console; like any call, it may raise.
\<close>

datatype engine_failure = DecodeError | NoReferenceFound | NoObjectFound | DegenerateScale

record measurement_result =
  result_width_mm :: pyfloat
  result_height_mm :: pyfloat

type_synonym engine_value = "engine_failure + measurement_result"

record engine_run =
  outcome :: "py_exception + engine_value"
  artifact :: "string option"
  printed :: "string list"

section \<open>Requests, the world and the environment\<close>

record file_storage =
  filename :: string
  payload :: string

record request =
  files :: "(string \<times> file_storage) list"
  form :: "(string \<times> string) list"

text \<open>
  The state the handlers read and write: the image files on disk, the annotated output
  image \<open>output_image.jpg\<close>, the record store, the console, and the list of calls made
  to \<open>measure_object\<close> (path and reference size; \<open>None\<close> when the argument is omitted
  and the callee's default applies).
\<close>

record world =
  disk_files :: "string \<rightharpoonup> string"
  output_image :: "string option"
  store :: store_file
  console :: "string list"
  engine_calls :: "(string \<times> pyfloat option) list"

text \<open>
  What a request takes from outside the source file: the categories loaded at start-up,
  the clock, the UUID generator, the library functions \<open>float\<close> (on a \<open>str\<close>: a float,
  or \<open>ValueError\<close> with its message), \<open>json.loads\<close> (\<open>None\<close>: it raises), \<open>str.strip\<close>
  and \<open>os.path.splitext(...)[1]\<close>, whether \<open>file.save\<close> and the write of the store
  raise, and the two functions of modules that are not among the sources,
  \<open>measure_object\<close> (it reads the image files) and \<open>create_sample_image\<close> (the path
  it returns, or the exception it raises; the file it writes is not modelled).
  A \<open>file.save\<close> that raises is taken to leave no file behind.
\<close>

record env =
  CATEGORIES :: "category_entry list"
  now :: string
  uuid4 :: "nat \<Rightarrow> string"
  py_float :: "string \<Rightarrow> string + pyfloat"
  json_loads :: "string \<Rightarrow> json_value option"
  str_strip :: "string \<Rightarrow> string"
  splitext_ext :: "string \<Rightarrow> string"
  file_save :: "py_exception option"
  store_write :: write_outcome
  measure_object :: "(string \<rightharpoonup> string) \<Rightarrow> string \<Rightarrow> pyfloat option \<Rightarrow> engine_run"
  create_sample_image :: "py_exception + string"

text \<open>
  The keyword arguments of \<open>render_template_string(RESULT_TEMPLATE, ...)\<close>; the HTML
  that Jinja makes of them is not modelled.
\<close>

record page_args =
  kw_image_url :: string
  kw_width :: cell
  kw_height :: cell
  kw_reference_size :: pyfloat
  kw_latitude :: "pyfloat option"
  kw_longitude :: "pyfloat option"
  kw_accuracy :: "pyfloat option"
  kw_timestamp :: string
  kw_weather_data :: json_value
  kw_object_name :: string
  kw_notes :: string
  kw_category_color :: "string option"
  kw_category_name :: string
  kw_measurement_id :: string

datatype response = Redirect string | Result_page page_args

section \<open>Pieces of the handlers\<close>

text \<open>\<open>request.form.get(key)\<close> and \<open>request.form.get(key, default)\<close>: the first value.\<close>

definition form_get :: "request \<Rightarrow> string \<Rightarrow> string option" where
  "form_get req key = map_of (form req) key"

definition form_get_or :: "request \<Rightarrow> string \<Rightarrow> string \<Rightarrow> string" where
  "form_get_or req key dflt = (case map_of (form req) key of None \<Rightarrow> dflt | Some v \<Rightarrow> v)"

text \<open>
  \<open>float(request.form.get('reference_size', 24.26))\<close>: the default is already a float;
  a supplied string is parsed, and a \<open>ValueError\<close> is not caught.
\<close>

definition reference_size_arg :: "env \<Rightarrow> request \<Rightarrow> py_exception + pyfloat" where
  "reference_size_arg env req =
     (case form_get req ''reference_size'' of
        None \<Rightarrow> Inr (Fin 24.26)
      | Some s \<Rightarrow>
          (case py_float env s of
             Inl msg \<Rightarrow> Inl (PyExc ''ValueError'' msg)
           | Inr v \<Rightarrow> Inr v))"

text \<open>
  \<open>json.loads(weather_data_str) if weather_data_str else None\<close> under a bare
  \<open>except\<close>.
\<close>

definition parse_weather :: "env \<Rightarrow> string option \<Rightarrow> json_value" where
  "parse_weather env weather_data_str =
     (case weather_data_str of
        None \<Rightarrow> JNull
      | Some s \<Rightarrow>
          if s = [] then JNull
          else (case json_loads env s of None \<Rightarrow> JNull | Some v \<Rightarrow> v))"

text \<open>\<open>float(x) if x else None\<close> for a form value \<open>x\<close> (a string, or \<open>None\<close>).\<close>

definition float_if_present :: "env \<Rightarrow> string option \<Rightarrow> string + pyfloat option" where
  "float_if_present env x =
     (case x of
        None \<Rightarrow> Inr None
      | Some s \<Rightarrow>
          if s = [] then Inr None
          else (case py_float env s of Inl msg \<Rightarrow> Inl msg | Inr v \<Rightarrow> Inr (Some v)))"

text \<open>
  The \<open>try\<close> block over the three GPS fields: they are converted in order, and the
  first \<open>ValueError\<close> sets all three to \<open>None\<close>.
\<close>

definition parse_gps ::
  "env \<Rightarrow> string option \<Rightarrow> string option \<Rightarrow> string option
     \<Rightarrow> pyfloat option \<times> pyfloat option \<times> pyfloat option" where
  "parse_gps env lat lon acc =
     (case float_if_present env lat of
        Inl _ \<Rightarrow> (None, None, None)
      | Inr la \<Rightarrow>
          (case float_if_present env lon of
             Inl _ \<Rightarrow> (None, None, None)
           | Inr lo \<Rightarrow>
               (case float_if_present env acc of
                  Inl _ \<Rightarrow> (None, None, None)
                | Inr ac \<Rightarrow> (la, lo, ac))))"

text \<open>\<open>next((c for c in CATEGORIES if c['id'] == category), None)\<close>\<close>

definition find_category :: "env \<Rightarrow> string \<Rightarrow> category_entry option" where
  "find_category env c = find (\<lambda>e. cat_id e = c) (CATEGORIES env)"

text \<open>\<open>bool(file)\<close> of a werkzeug \<open>FileStorage\<close> is \<open>bool(file.filename)\<close>.\<close>

definition file_truthy :: "file_storage \<Rightarrow> bool" where
  "file_truthy file = (filename file \<noteq> [])"

text \<open>
  \<open>str(uuid.uuid4()) + os.path.splitext(file.filename)[1]\<close> and
  \<open>os.path.join('uploads', filename)\<close>; the first UUID of the request names the file.
\<close>

definition upload_filename :: "env \<Rightarrow> file_storage \<Rightarrow> string" where
  "upload_filename env file = uuid4 env 0 @ splitext_ext env (filename file)"

definition upload_filepath :: "env \<Rightarrow> file_storage \<Rightarrow> string" where
  "upload_filepath env file = ''uploads/'' @ upload_filename env file"

text \<open>
  One call of \<open>measure_object\<close>: the call is recorded, the engine's output image and
  console lines reach the world, and its outcome goes to the caller.
\<close>

definition call_measure_object ::
  "env \<Rightarrow> string \<Rightarrow> pyfloat option \<Rightarrow> world \<Rightarrow> (py_exception + engine_value) \<times> world" where
  "call_measure_object env path reference_size w =
     (let run = measure_object env (disk_files w) path reference_size
      in (outcome run,
          w\<lparr>output_image := (case artifact run of None \<Rightarrow> output_image w | Some img \<Rightarrow> Some img),
            console := console w @ printed run,
            engine_calls := engine_calls w @ [(path, reference_size)]\<rparr>))"

text \<open>
  The block that both handlers use to save the record: load the list, append, write it
  back; any exception is printed and swallowed.
\<close>

definition save_error_line :: "py_exception \<Rightarrow> string" where
  "save_error_line e = ''Error saving measurement data: '' @ exc_str e"

definition save_measurement :: "env \<Rightarrow> measurement \<Rightarrow> world \<Rightarrow> world" where
  "save_measurement env measurement_data w =
     (case store w of
        Broken e \<Rightarrow> w\<lparr>console := console w @ [save_error_line e]\<rparr>
      | Json_list measurements \<Rightarrow>
          (case store_write env of
             Write_ok \<Rightarrow> w\<lparr>store := Json_list (measurements @ [measurement_data])\<rparr>
           | Open_raises e \<Rightarrow> w\<lparr>console := console w @ [save_error_line e]\<rparr>
           | Dump_raises e later \<Rightarrow>
               w\<lparr>store := Broken later, console := console w @ [save_error_line e]\<rparr>))"

section \<open>The handler \<open>upload_file\<close>\<close>

text \<open>
  The body of \<open>if file:\<close>. An exception that the source does not catch ends the
  request with \<open>Inl\<close>, the world keeping what was done before it.
\<close>

definition process_upload ::
  "env \<Rightarrow> request \<Rightarrow> file_storage \<Rightarrow> world \<Rightarrow> (py_exception + response) \<times> world" where
  "process_upload env req file w =
     (case reference_size_arg env req of
        Inl e \<Rightarrow> (Inl e, w)
      | Inr reference_size \<Rightarrow>
         (let object_name_v = str_strip env (form_get_or req ''object_name'' []);
              notes_v = str_strip env (form_get_or req ''notes'' []);
              category_v = form_get_or req ''category'' ''other'';
              timestamp_v = now env;
              weather_v = parse_weather env (form_get req ''weather'');
              gps = parse_gps env (form_get req ''latitude'') (form_get req ''longitude'')
                      (form_get req ''accuracy'');
              category_data_v = find_category env category_v;
              filename_v = upload_filename env file;
              filepath = upload_filepath env file
          in (case file_save env of
                Some e \<Rightarrow> (Inl e, w)
              | None \<Rightarrow>
                 (case call_measure_object env filepath (Some reference_size)
                         (w\<lparr>disk_files := (disk_files w)(filepath \<mapsto> payload file)\<rparr>) of
                    (Inl e, w2) \<Rightarrow> (Inl e, w2)
                  | (Inr _, w2) \<Rightarrow>
                     (let output_filename_v = ''output_image.jpg'';
                          measurement_id = uuid4 env 1;
                          measurement_data =
                            \<lparr>id' = measurement_id,
                             timestamp = timestamp_v,
                             image_filename = filename_v,
                             output_filename = output_filename_v,
                             reference_size_mm = reference_size,
                             width_mm = Text ''Calculated automatically'',
                             height_mm = Text ''Calculated automatically'',
                             object_name = object_name_v,
                             notes' = notes_v,
                             category = category_v,
                             category_data = category_data_v,
                             latitude = fst gps,
                             longitude = fst (snd gps),
                             accuracy = snd (snd gps),
                             weather_data = weather_v\<rparr>
                      in (Inr (Result_page
                            \<lparr>kw_image_url = ''/'' @ output_filename_v,
                             kw_width = Text ''Calculated automatically'',
                             kw_height = Text ''Calculated automatically'',
                             kw_reference_size = reference_size,
                             kw_latitude = fst gps,
                             kw_longitude = fst (snd gps),
                             kw_accuracy = snd (snd gps),
                             kw_timestamp = timestamp_v,
                             kw_weather_data = weather_v,
                             kw_object_name = object_name_v,
                             kw_notes = notes_v,
                             kw_category_color =
                               (case category_data_v of None \<Rightarrow> None | Some c \<Rightarrow> Some (cat_color c)),
                             kw_category_name =
                               (case category_data_v of None \<Rightarrow> ''Other'' | Some c \<Rightarrow> cat_name c),
                             kw_measurement_id = measurement_id\<rparr>),
                          save_measurement env measurement_data w2))))))"

definition upload_file ::
  "env \<Rightarrow> request \<Rightarrow> world \<Rightarrow> (py_exception + response) \<times> world" where
  "upload_file env req w =
     (case map_of (files req) ''file'' of
        None \<Rightarrow> (Inr (Redirect ''/''), w)
      | Some file \<Rightarrow>
          if filename file = [] then (Inr (Redirect ''/''), w)
          else if file_truthy file then process_upload env req file w
          else (Inr (Redirect ''/''), w))"

section \<open>The handler \<open>sample\<close>\<close>

definition sample :: "env \<Rightarrow> world \<Rightarrow> (py_exception + response) \<times> world" where
  "sample env w =
     (case create_sample_image env of
        Inl e \<Rightarrow> (Inl e, w)
      | Inr sample_path \<Rightarrow>
         (case call_measure_object env sample_path None w of
            (Inl e, w2) \<Rightarrow> (Inl e, w2)
          | (Inr _, w2) \<Rightarrow>
             (let output_filename_v = ''output_image.jpg'';
                  latitude_v = Some (Fin 40.7128);
                  longitude_v = Some (Fin (- 74.0060));
                  accuracy_v = Some (Fin 10.0);
                  timestamp_v = now env;
                  weather_v = JObject
                    [(''temperature'', JInt 22),
                     (''conditions'', JString ''Partly Cloudy''),
                     (''humidity'', JInt 65),
                     (''windSpeed'', JInt 8),
                     (''location'', JString ''New York City'')];
                  measurement_id = uuid4 env 0;
                  object_name_v = ''Sample Test Object'';
                  category_v = ''other'';
                  category_data_v = find_category env category_v;
                  measurement_data =
                    \<lparr>id' = measurement_id,
                     timestamp = timestamp_v,
                     image_filename = ''sample_image.jpg'',
                     output_filename = output_filename_v,
                     reference_size_mm = Fin 24.26,
                     width_mm = Text ''Calculated automatically'',
                     height_mm = Text ''Calculated automatically'',
                     object_name = object_name_v,
                     notes' = ''This is a sample measurement generated by the system.'',
                     category = category_v,
                     category_data = category_data_v,
                     latitude = latitude_v,
                     longitude = longitude_v,
                     accuracy = accuracy_v,
                     weather_data = weather_v\<rparr>
              in (Inr (Result_page
                    \<lparr>kw_image_url = ''/'' @ output_filename_v,
                     kw_width = Text ''Calculated automatically'',
                     kw_height = Text ''Calculated automatically'',
                     kw_reference_size = Fin 24.26,
                     kw_latitude = latitude_v,
                     kw_longitude = longitude_v,
                     kw_accuracy = accuracy_v,
                     kw_timestamp = timestamp_v,
                     kw_weather_data = weather_v,
                     kw_object_name = object_name_v,
                     kw_notes = ''This is a sample measurement generated by the system.'',
                     kw_category_color =
                       (case category_data_v of None \<Rightarrow> None | Some c \<Rightarrow> Some (cat_color c)),
                     kw_category_name =
                       (case category_data_v of None \<Rightarrow> ''Other'' | Some c \<Rightarrow> cat_name c),
                     kw_measurement_id = measurement_id\<rparr>),
                  save_measurement env measurement_data w2))))"

section \<open>Observations on a run\<close>

text \<open>
  The record that a run appended to the store, if it appended exactly one: the store
  held a list before and holds that list with one more record after.
\<close>

definition appended_record :: "world \<Rightarrow> world \<Rightarrow> measurement option" where
  "appended_record w w' =
     (case store w of
        Broken _ \<Rightarrow> None
      | Json_list ms \<Rightarrow>
          (case store w' of
             Broken _ \<Rightarrow> None
           | Json_list ms' \<Rightarrow>
               if ms' \<noteq> [] \<and> butlast ms' = ms then Some (last ms') else None))"

text \<open>The exception that the \<open>try\<close> block around the store raises, if it raises.\<close>

definition save_exception :: "env \<Rightarrow> world \<Rightarrow> py_exception option" where
  "save_exception env w =
     (case store w of
        Broken e \<Rightarrow> Some e
      | Json_list _ \<Rightarrow>
          (case store_write env of
             Write_ok \<Rightarrow> None
           | Open_raises e \<Rightarrow> Some e
           | Dump_raises e _ \<Rightarrow> Some e))"

text \<open>
  The GPS fields as the specification words them: converting a field raises when the field is
  present, not empty, and \<open>float\<close> rejects it; the float value of a field is \<open>None\<close>
  when the field is absent or empty.
\<close>

definition conversion_raises :: "env \<Rightarrow> string option \<Rightarrow> bool" where
  "conversion_raises env x =
     (case x of None \<Rightarrow> False | Some s \<Rightarrow> s \<noteq> [] \<and> isl (py_float env s))"

definition float_value :: "env \<Rightarrow> string option \<Rightarrow> pyfloat option" where
  "float_value env x =
     (case x of
        None \<Rightarrow> None
      | Some s \<Rightarrow>
          if s = [] then None
          else (case py_float env s of Inl _ \<Rightarrow> None | Inr v \<Rightarrow> Some v))"

text \<open>
  A run of upload requests, one after the other, each with its own environment (clock
  reading, UUID draws, outcomes of the engine and of the file system).
\<close>

fun serve_uploads :: "(env \<times> request) list \<Rightarrow> world \<Rightarrow> world" where
  "serve_uploads [] w = w"
| "serve_uploads (er # rest) w = serve_uploads rest (snd (upload_file (fst er) (snd er) w))"

text \<open>
  What \<open>uuid.uuid4()\<close> is used for: the ids already in use, followed by the values
  drawn for the record ids over a run, are pairwise distinct.
\<close>

definition uuid4_never_repeats :: "string list \<Rightarrow> (env \<times> request) list \<Rightarrow> bool" where
  "uuid4_never_repeats ids_in_use run =
     distinct (ids_in_use @ map (\<lambda>er. uuid4 (fst er) 1) run)"

section \<open>Example inputs\<close>

text \<open>
  \<open>float\<close> and \<open>json.loads\<close> on the strings of the examples; the other strings the
  examples pass to them are ones Python rejects too. \<open>strip_spaces\<close> is \<open>str.strip\<close>
  on text whose only white space is the space character, and \<open>ext_after_dot\<close> is
  \<open>os.path.splitext(...)[1]\<close> on a plain file name that does not start with a dot.
\<close>

definition float_table :: "string \<Rightarrow> string + pyfloat" where
  "float_table s =
     (case map_of
        [(''24.26'', Fin 24.26), (''30'', Fin 30), (''51.5074'', Fin 51.5074),
         (''-0.1278'', Fin (- 0.1278)), (''12.5'', Fin 12.5), (''nan'', NaN)] s of
        Some v \<Rightarrow> Inr v
      | None \<Rightarrow> Inl (''could not convert string to float: '' @ [CHR 0x27] @ s @ [CHR 0x27]))"

definition json_table :: "string \<Rightarrow> json_value option" where
  "json_table s =
     map_of
       [(''{\"temperature\": 18, \"conditions\": \"Rain\"}'',
         JObject [(''temperature'', JInt 18), (''conditions'', JString ''Rain'')]),
        (''null'', JNull)] s"

definition strip_spaces :: "string \<Rightarrow> string" where
  "strip_spaces s =
     rev (dropWhile (\<lambda>c. c = CHR '' '') (rev (dropWhile (\<lambda>c. c = CHR '' '') s)))"

definition ext_after_dot :: "string \<Rightarrow> string" where
  "ext_after_dot s =
     (if CHR ''.'' \<in> set s then CHR ''.'' # rev (takeWhile (\<lambda>c. c \<noteq> CHR ''.'') (rev s))
      else [])"

definition engine_measuring :: "(string \<rightharpoonup> string) \<Rightarrow> string \<Rightarrow> pyfloat option \<Rightarrow> engine_run" where
  "engine_measuring fs path reference_size =
     \<lparr>outcome = Inr (Inr \<lparr>result_width_mm = Fin 48.52, result_height_mm = Fin 24.26\<rparr>),
      artifact = Some ''annotated'',
      printed = []\<rparr>"

definition engine_no_reference :: "(string \<rightharpoonup> string) \<Rightarrow> string \<Rightarrow> pyfloat option \<Rightarrow> engine_run" where
  "engine_no_reference fs path reference_size =
     \<lparr>outcome = Inr (Inl NoReferenceFound),
      artifact = None,
      printed = [''No reference object found'']\<rparr>"

definition engine_raising :: "(string \<rightharpoonup> string) \<Rightarrow> string \<Rightarrow> pyfloat option \<Rightarrow> engine_run" where
  "engine_raising fs path reference_size =
     \<lparr>outcome = Inl (PyExc ''ValueError'' ''Could not read the image''),
      artifact = None,
      printed = []\<rparr>"

definition example_env :: env where
  "example_env =
     \<lparr>CATEGORIES = DEFAULT_CATEGORIES,
      now = ''2024-05-01 12:00:00'',
      uuid4 = (\<lambda>n. if n = 0 then ''1b4e28ba-2fa1-41d2-883f-0016d3cca427''
                     else ''6fa459ea-ee8a-4ca4-894e-db77e160355e''),
      py_float = float_table,
      json_loads = json_table,
      str_strip = strip_spaces,
      splitext_ext = ext_after_dot,
      file_save = None,
      store_write = Write_ok,
      measure_object = engine_measuring,
      create_sample_image = Inr ''sample_image.jpg''\<rparr>"

definition example_request :: request where
  "example_request =
     \<lparr>files = [(''file'', \<lparr>filename = ''photo.jpg'', payload = ''JFIF''\<rparr>)],
      form =
        [(''reference_size'', ''30''),
         (''object_name'', '' Desk ''),
         (''notes'', ''oak''),
         (''category'', ''furniture''),
         (''latitude'', ''51.5074''),
         (''longitude'', ''-0.1278''),
         (''accuracy'', ''12.5''),
         (''weather'', ''{\"temperature\": 18, \"conditions\": \"Rain\"}'')]\<rparr>"

definition example_world :: world where
  "example_world =
     \<lparr>disk_files = Map.empty,
      output_image = None,
      store = Json_list [],
      console = [],
      engine_calls = []\<rparr>"

text \<open>What the example upload stores and renders.\<close>

definition example_record :: measurement where
  "example_record =
     \<lparr>id' = ''6fa459ea-ee8a-4ca4-894e-db77e160355e'',
      timestamp = ''2024-05-01 12:00:00'',
      image_filename = ''1b4e28ba-2fa1-41d2-883f-0016d3cca427.jpg'',
      output_filename = ''output_image.jpg'',
      reference_size_mm = Fin 30,
      width_mm = Text ''Calculated automatically'',
      height_mm = Text ''Calculated automatically'',
      object_name = ''Desk'',
      notes' = ''oak'',
      category = ''furniture'',
      category_data =
        Some \<lparr>cat_id = ''furniture'', cat_name = ''Furniture'', cat_color = ''#4285F4''\<rparr>,
      latitude = Some (Fin 51.5074),
      longitude = Some (Fin (- 0.1278)),
      accuracy = Some (Fin 12.5),
      weather_data = JObject [(''temperature'', JInt 18), (''conditions'', JString ''Rain'')]\<rparr>"

definition example_page :: page_args where
  "example_page =
     \<lparr>kw_image_url = ''/output_image.jpg'',
      kw_width = Text ''Calculated automatically'',
      kw_height = Text ''Calculated automatically'',
      kw_reference_size = Fin 30,
      kw_latitude = Some (Fin 51.5074),
      kw_longitude = Some (Fin (- 0.1278)),
      kw_accuracy = Some (Fin 12.5),
      kw_timestamp = ''2024-05-01 12:00:00'',
      kw_weather_data = JObject [(''temperature'', JInt 18), (''conditions'', JString ''Rain'')],
      kw_object_name = ''Desk'',
      kw_notes = ''oak'',
      kw_category_color = Some ''#4285F4'',
      kw_category_name = ''Furniture'',
      kw_measurement_id = ''6fa459ea-ee8a-4ca4-894e-db77e160355e''\<rparr>"

definition example_path :: string where
  "example_path = ''uploads/1b4e28ba-2fa1-41d2-883f-0016d3cca427.jpg''"

text \<open>A request with no \<open>file\<close> part, and one whose file has an empty name.\<close>

definition request_without_file :: request where
  "request_without_file = \<lparr>files = [], form = [(''object_name'', ''Desk'')]\<rparr>"

definition request_empty_filename :: request where
  "request_empty_filename =
     \<lparr>files = [(''file'', \<lparr>filename = [], payload = []\<rparr>)], form = [(''object_name'', ''Desk'')]\<rparr>"

text \<open>
  Variants of the example: an engine that returns the typed failure \<open>NoReferenceFound\<close>,
  an engine that raises, a store that cannot be opened for writing, a store that cannot
  be loaded, a form without \<open>reference_size\<close>, and a form whose longitude is not a number.
\<close>

definition env_no_reference :: env where
  "env_no_reference = example_env\<lparr>measure_object := engine_no_reference\<rparr>"

definition env_engine_raises :: env where
  "env_engine_raises = example_env\<lparr>measure_object := engine_raising\<rparr>"

definition permission_denied :: py_exception where
  "permission_denied =
     PyExc ''PermissionError''
       (''[Errno 13] Permission denied: '' @ [CHR 0x27] @ ''results/measurements.json'' @ [CHR 0x27])"

definition env_read_only_store :: env where
  "env_read_only_store = example_env\<lparr>store_write := Open_raises permission_denied\<rparr>"

definition world_broken_store :: world where
  "world_broken_store =
     example_world\<lparr>store := Broken (PyExc ''JSONDecodeError''
        ''Expecting value: line 1 column 1 (char 0)'')\<rparr>"


definition request_bad_longitude :: request where
  "request_bad_longitude =
     \<lparr>files = [(''file'', \<lparr>filename = ''photo.jpg'', payload = ''JFIF''\<rparr>)],
      form =
        [(''reference_size'', ''30''),
         (''latitude'', ''51.5074''),
         (''longitude'', ''east''),
         (''accuracy'', ''12.5'')]\<rparr>"



text \<open>A second upload, with its own clock reading and UUID draws.\<close>

definition second_env :: env where
  "second_env =
     example_env\<lparr>now := ''2024-05-01 12:05:00'',
       uuid4 := (\<lambda>n. if n = 0 then ''9b2f6c1e-53a7-4d0b-8a51-2f7c7f1d4e10''
                      else ''c0a8012e-7d3b-4f6a-9e2d-5b1a6c3d8f42'')\<rparr>"

section \<open>Facts about the pieces\<close>

lemma fst_call_measure_object:
  "fst (call_measure_object env p r w) = outcome (measure_object env (disk_files w) p r)"
  by (simp add: call_measure_object_def Let_def)

lemma snd_call_measure_object:
  "store (snd (call_measure_object env p r w)) = store w"
  "disk_files (snd (call_measure_object env p r w)) = disk_files w"
  "engine_calls (snd (call_measure_object env p r w)) = engine_calls w @ [(p, r)]"
  "console (snd (call_measure_object env p r w)) =
     console w @ printed (measure_object env (disk_files w) p r)"
  by (simp_all add: call_measure_object_def Let_def)

lemma save_measurement_frame:
  "disk_files (save_measurement env md w) = disk_files w"
  "output_image (save_measurement env md w) = output_image w"
  "engine_calls (save_measurement env md w) = engine_calls w"
  by (simp_all add: save_measurement_def split: store_file.splits write_outcome.splits)

lemma console_save_measurement:
  "console (save_measurement env md w) =
     console w @ (case save_exception env w of None \<Rightarrow> [] | Some e \<Rightarrow> [save_error_line e])"
  by (simp add: save_measurement_def save_exception_def split: store_file.splits write_outcome.splits)

lemma store_save_measurement_ok:
  "store w = Json_list ms \<Longrightarrow> store_write env = Write_ok \<Longrightarrow>
   store (save_measurement env md w) = Json_list (ms @ [md])"
  by (simp add: save_measurement_def)

lemma butlast_fixpoint: "butlast ms = ms \<Longrightarrow> ms = []"
proof -
  assume a: "butlast ms = ms"
  have "length (butlast ms) = length ms - 1" by (rule length_butlast)
  with a have "length ms - 1 = length ms" by simp
  then show "ms = []" by (cases ms) simp_all
qed

lemma appended_record_same: "store w' = store w \<Longrightarrow> appended_record w w' = None"
  by (auto simp: appended_record_def split: store_file.splits dest: butlast_fixpoint)

lemma appended_record_save_measurement:
  assumes "store w2 = store w"
  shows "appended_record w (save_measurement env md w2) =
           (case save_exception env w of None \<Rightarrow> Some md | Some e \<Rightarrow> None)"
proof (cases "store w")
  case (Broken e)
  then show ?thesis by (simp add: appended_record_def save_exception_def)
next
  case (Json_list ms)
  show ?thesis
  proof (cases "store_write env")
    case Write_ok
    with Json_list assms show ?thesis
      by (simp add: appended_record_def save_exception_def save_measurement_def)
  next
    case (Open_raises e)
    with Json_list assms have "store (save_measurement env md w2) = store w"
      by (simp add: save_measurement_def)
    from appended_record_same [OF this] Open_raises Json_list show ?thesis
      by (simp add: save_exception_def)
  next
    case (Dump_raises e later)
    with Json_list assms show ?thesis
      by (simp add: appended_record_def save_exception_def save_measurement_def)
  qed
qed

lemma process_upload_bad_size:
  "reference_size_arg env req = Inl e \<Longrightarrow> process_upload env req file w = (Inl e, w)"
  by (simp add: process_upload_def)

lemma process_upload_save_raises:
  "reference_size_arg env req = Inr rs \<Longrightarrow> file_save env = Some e \<Longrightarrow>
   process_upload env req file w = (Inl e, w)"
  by (simp add: process_upload_def Let_def)

lemma process_upload_engine_raises:
  assumes "reference_size_arg env req = Inr rs" and "file_save env = None"
    and "outcome (measure_object env ((disk_files w)(upload_filepath env file \<mapsto> payload file))
           (upload_filepath env file) (Some rs)) = Inl e"
  shows "process_upload env req file w =
           (Inl e, snd (call_measure_object env (upload_filepath env file) (Some rs)
                          (w\<lparr>disk_files := (disk_files w)(upload_filepath env file \<mapsto> payload file)\<rparr>)))"
  using assms
  by (simp add: process_upload_def Let_def split: prod.splits sum.splits)
     (auto simp: call_measure_object_def Let_def)

lemma process_upload_rendered:
  assumes "reference_size_arg env req = Inr rs" and "file_save env = None"
    and "outcome (measure_object env ((disk_files w)(upload_filepath env file \<mapsto> payload file))
           (upload_filepath env file) (Some rs)) = Inr v"
  shows "process_upload env req file w =
    (Inr (Result_page
       \<lparr>kw_image_url = ''/output_image.jpg'',
        kw_width = Text ''Calculated automatically'',
        kw_height = Text ''Calculated automatically'',
        kw_reference_size = rs,
        kw_latitude = fst (parse_gps env (form_get req ''latitude'')
                        (form_get req ''longitude'') (form_get req ''accuracy'')),
        kw_longitude = fst (snd (parse_gps env (form_get req ''latitude'')
                        (form_get req ''longitude'') (form_get req ''accuracy''))),
        kw_accuracy = snd (snd (parse_gps env (form_get req ''latitude'')
                        (form_get req ''longitude'') (form_get req ''accuracy''))),
        kw_timestamp = now env,
        kw_weather_data = parse_weather env (form_get req ''weather''),
        kw_object_name = str_strip env (form_get_or req ''object_name'' []),
        kw_notes = str_strip env (form_get_or req ''notes'' []),
        kw_category_color =
          (case find_category env (form_get_or req ''category'' ''other'') of
             None \<Rightarrow> None | Some c \<Rightarrow> Some (cat_color c)),
        kw_category_name =
          (case find_category env (form_get_or req ''category'' ''other'') of
             None \<Rightarrow> ''Other'' | Some c \<Rightarrow> cat_name c),
        kw_measurement_id = uuid4 env 1\<rparr>),
     save_measurement env
       \<lparr>id' = uuid4 env 1,
        timestamp = now env,
        image_filename = upload_filename env file,
        output_filename = ''output_image.jpg'',
        reference_size_mm = rs,
        width_mm = Text ''Calculated automatically'',
        height_mm = Text ''Calculated automatically'',
        object_name = str_strip env (form_get_or req ''object_name'' []),
        notes' = str_strip env (form_get_or req ''notes'' []),
        category = form_get_or req ''category'' ''other'',
        category_data = find_category env (form_get_or req ''category'' ''other''),
        latitude = fst (parse_gps env (form_get req ''latitude'')
                     (form_get req ''longitude'') (form_get req ''accuracy'')),
        longitude = fst (snd (parse_gps env (form_get req ''latitude'')
                     (form_get req ''longitude'') (form_get req ''accuracy''))),
        accuracy = snd (snd (parse_gps env (form_get req ''latitude'')
                     (form_get req ''longitude'') (form_get req ''accuracy''))),
        weather_data = parse_weather env (form_get req ''weather'')\<rparr>
       (snd (call_measure_object env (upload_filepath env file) (Some rs)
               (w\<lparr>disk_files := (disk_files w)(upload_filepath env file \<mapsto> payload file)\<rparr>))))"
  using assms
  by (simp add: process_upload_def Let_def split: prod.splits sum.splits)
     (auto simp: call_measure_object_def Let_def)

lemma sample_create_raises:
  "create_sample_image env = Inl e \<Longrightarrow> sample env w = (Inl e, w)"
  by (simp add: sample_def)

lemma sample_engine_raises:
  assumes "create_sample_image env = Inr p"
    and "outcome (measure_object env (disk_files w) p None) = Inl e"
  shows "sample env w = (Inl e, snd (call_measure_object env p None w))"
  using assms
  by (simp add: sample_def Let_def split: prod.splits sum.splits)
     (auto simp: call_measure_object_def Let_def)

lemma sample_rendered:
  assumes "create_sample_image env = Inr p"
    and "outcome (measure_object env (disk_files w) p None) = Inr v"
  shows "\<exists>pg md. sample env w =
            (Inr (Result_page pg), save_measurement env md (snd (call_measure_object env p None w)))
          \<and> kw_image_url pg = ''/output_image.jpg''
          \<and> kw_width pg = Text ''Calculated automatically''
          \<and> kw_height pg = Text ''Calculated automatically''
          \<and> kw_reference_size pg = Fin 24.26
          \<and> output_filename md = ''output_image.jpg''
          \<and> width_mm md = Text ''Calculated automatically''
          \<and> height_mm md = Text ''Calculated automatically''
          \<and> reference_size_mm md = Fin 24.26"
  using assms
  by (simp add: sample_def Let_def split: prod.splits sum.splits)
     (auto simp: call_measure_object_def Let_def)

text \<open>The three ways a request to \<open>upload_file\<close> ends.\<close>

lemma upload_file_redirect:
  "map_of (files req) ''file'' = None \<or>
   (\<exists>file. map_of (files req) ''file'' = Some file \<and> filename file = []) \<Longrightarrow>
   upload_file env req w = (Inr (Redirect ''/''), w)"
  by (auto simp: upload_file_def)

lemma upload_file_process:
  "map_of (files req) ''file'' = Some file \<Longrightarrow> filename file \<noteq> [] \<Longrightarrow>
   upload_file env req w = process_upload env req file w"
  by (simp add: upload_file_def file_truthy_def)

lemma upload_file_cases [case_names redirect raised rendered]:
  obtains
    (redirect) "upload_file env req w = (Inr (Redirect ''/''), w)"
  | (raised) e w' where "upload_file env req w = (Inl e, w')" and "store w' = store w"
  | (rendered) f rs v where
      "map_of (files req) ''file'' = Some f" and "filename f \<noteq> []"
      and "reference_size_arg env req = Inr rs" and "file_save env = None"
      and "outcome (measure_object env ((disk_files w)(upload_filepath env f \<mapsto> payload f))
             (upload_filepath env f) (Some rs)) = Inr v"
proof (cases "map_of (files req) ''file''")
  case None
  then show ?thesis using redirect upload_file_redirect by blast
next
  case (Some f)
  show ?thesis
  proof (cases "filename f = []")
    case True
    with Some show ?thesis using redirect upload_file_redirect by blast
  next
    case nonempty: False
    with Some have up: "upload_file env req w = process_upload env req f w"
      by (rule upload_file_process)
    show ?thesis
    proof (cases "reference_size_arg env req")
      case (Inl e)
      with up raised [of e w] show ?thesis by (simp add: process_upload_bad_size)
    next
      case (Inr rs)
      show ?thesis
      proof (cases "file_save env")
        case (Some e)
        with Inr up raised [of e w] show ?thesis by (simp add: process_upload_save_raises)
      next
        case None
        show ?thesis
        proof (cases "outcome (measure_object env
                  ((disk_files w)(upload_filepath env f \<mapsto> payload f))
                  (upload_filepath env f) (Some rs))")
          case (Inl e)
          from process_upload_engine_raises [OF Inr None Inl] up
          have "upload_file env req w =
                  (Inl e, snd (call_measure_object env (upload_filepath env f) (Some rs)
                     (w\<lparr>disk_files := (disk_files w)(upload_filepath env f \<mapsto> payload f)\<rparr>)))"
            by simp
          moreover have "store (snd (call_measure_object env (upload_filepath env f) (Some rs)
                     (w\<lparr>disk_files := (disk_files w)(upload_filepath env f \<mapsto> payload f)\<rparr>)))
                  = store w"
            by (simp add: snd_call_measure_object)
          ultimately show ?thesis by (rule raised)
        next
          case eng: (Inr v)
          from \<open>map_of (files req) ''file'' = Some f\<close> nonempty Inr None eng
          show ?thesis by (rule rendered)
        qed
      qed
    qed
  qed
qed

section \<open>The example upload, evaluated\<close>

lemma example_file:
  "map_of (files example_request) ''file'' = Some \<lparr>filename = ''photo.jpg'', payload = ''JFIF''\<rparr>"
  by (simp add: example_request_def)

lemma example_pieces:
  "reference_size_arg example_env example_request = Inr (Fin 30)"
  "file_save example_env = None"
  "store_write example_env = Write_ok"
  "upload_filename example_env \<lparr>filename = ''photo.jpg'', payload = ''JFIF''\<rparr>
     = ''1b4e28ba-2fa1-41d2-883f-0016d3cca427.jpg''"
  "upload_filepath example_env \<lparr>filename = ''photo.jpg'', payload = ''JFIF''\<rparr> = example_path"
  "parse_gps example_env (form_get example_request ''latitude'')
     (form_get example_request ''longitude'') (form_get example_request ''accuracy'')
     = (Some (Fin 51.5074), Some (Fin (- 0.1278)), Some (Fin 12.5))"
  "parse_weather example_env (form_get example_request ''weather'')
     = JObject [(''temperature'', JInt 18), (''conditions'', JString ''Rain'')]"
  "str_strip example_env (form_get_or example_request ''object_name'' []) = ''Desk''"
  "str_strip example_env (form_get_or example_request ''notes'' []) = ''oak''"
  "form_get_or example_request ''category'' ''other'' = ''furniture''"
  "find_category example_env ''furniture''
     = Some \<lparr>cat_id = ''furniture'', cat_name = ''Furniture'', cat_color = ''#4285F4''\<rparr>"
  "now example_env = ''2024-05-01 12:00:00''"
  "uuid4 example_env 1 = ''6fa459ea-ee8a-4ca4-894e-db77e160355e''"
  by (simp_all add: example_env_def example_request_def reference_size_arg_def form_get_def
        form_get_or_def float_table_def upload_filename_def upload_filepath_def example_path_def
        ext_after_dot_def parse_gps_def float_if_present_def parse_weather_def json_table_def
        strip_spaces_def find_category_def DEFAULT_CATEGORIES_def)

lemma example_upload:
  "upload_file example_env example_request example_world =
     (Inr (Result_page example_page),
      \<lparr>disk_files = [example_path \<mapsto> ''JFIF''],
       output_image = Some ''annotated'',
       store = Json_list [example_record],
       console = [],
       engine_calls = [(example_path, Some (Fin 30))]\<rparr>)"
proof -
  have eng: "outcome (measure_object example_env f p r) =
               Inr (Inr \<lparr>result_width_mm = Fin 48.52, result_height_mm = Fin 24.26\<rparr>)" for f p r
    by (simp add: example_env_def engine_measuring_def)
  have "upload_file example_env example_request example_world =
          process_upload example_env example_request
            \<lparr>filename = ''photo.jpg'', payload = ''JFIF''\<rparr> example_world"
    by (rule upload_file_process [OF example_file]) simp
  also note process_upload_rendered [OF example_pieces(1,2) eng]
  finally show ?thesis
    by (simp add: example_pieces example_page_def example_record_def
          call_measure_object_def save_measurement_def example_world_def)
       (simp add: example_env_def engine_measuring_def)
qed

section \<open>The outcomes of the handlers\<close>

lemma sample_cases [case_names raised rendered]:
  obtains
    (raised) e w' where "sample env w = (Inl e, w')" and "store w' = store w"
  | (rendered) p v where "create_sample_image env = Inr p"
      and "outcome (measure_object env (disk_files w) p None) = Inr v"
proof (cases "create_sample_image env")
  case (Inl e)
  then have "sample env w = (Inl e, w)" by (rule sample_create_raises)
  then show ?thesis by (rule raised) simp
next
  case (Inr p)
  show ?thesis
  proof (cases "outcome (measure_object env (disk_files w) p None)")
    case (Inl e)
    with Inr have "sample env w = (Inl e, snd (call_measure_object env p None w))"
      by (rule sample_engine_raises)
    then show ?thesis by (rule raised) (simp add: snd_call_measure_object)
  next
    case eng: (Inr v)
    with Inr show ?thesis by (rule rendered)
  qed
qed

lemma example_sample_pieces:
  "create_sample_image example_env = Inr ''sample_image.jpg''"
  "outcome (measure_object example_env fs p r) =
     Inr (Inr \<lparr>result_width_mm = Fin 48.52, result_height_mm = Fin 24.26\<rparr>)"
  "save_exception example_env example_world = None"
  by (simp_all add: example_env_def engine_measuring_def save_exception_def example_world_def)

lemma example_upload_appended:
  "appended_record example_world (snd (upload_file example_env example_request example_world))
     = Some example_record"
  by (simp only: example_upload) (simp add: appended_record_def example_world_def)

text \<open>
  C1. The numeric measurement is not threaded back by \<open>upload_file\<close>: for all inputs,
  whatever \<open>measure_object\<close> does, the record a request stores has the placeholder
  string \<open>Calculated automatically\<close> under \<open>width_mm\<close> and \<open>height_mm\<close>, and the result
  page it renders has it as \<open>width\<close> and \<open>height\<close>; neither is ever a number.
\<close>

theorem upload_file_placeholder_dimensions:
  "(\<forall>r. appended_record w (snd (upload_file env req w)) = Some r \<longrightarrow>
        width_mm r = Text ''Calculated automatically'' \<and>
        height_mm r = Text ''Calculated automatically'' \<and>
        (\<forall>x. width_mm r \<noteq> Number x \<and> height_mm r \<noteq> Number x)) \<and>
   (\<forall>pg. fst (upload_file env req w) = Inr (Result_page pg) \<longrightarrow>
        kw_width pg = Text ''Calculated automatically'' \<and>
        kw_height pg = Text ''Calculated automatically'' \<and>
        (\<forall>x. kw_width pg \<noteq> Number x \<and> kw_height pg \<noteq> Number x))"
proof (cases rule: upload_file_cases [of env req w])
  case redirect
  then show ?thesis by (simp add: appended_record_same)
next
  case (raised e w')
  then show ?thesis by (simp add: appended_record_same)
next
  case (rendered f rs v)
  note run = process_upload_rendered [OF rendered(3,4,5)]
  from rendered(1,2) have "upload_file env req w = process_upload env req f w"
    by (rule upload_file_process)
  with run show ?thesis
    by (auto simp: appended_record_save_measurement snd_call_measure_object
             split: option.splits)
qed

theorem upload_file_placeholder_dimensions_witness:
  "appended_record example_world (snd (upload_file example_env example_request example_world))
     = Some example_record \<and>
   width_mm example_record = Text ''Calculated automatically'' \<and>
   height_mm example_record = Text ''Calculated automatically'' \<and>
   fst (upload_file example_env example_request example_world) = Inr (Result_page example_page) \<and>
   kw_width example_page = Text ''Calculated automatically'' \<and>
   kw_height example_page = Text ''Calculated automatically''"
proof -
  have stored: "appended_record example_world
      (snd (upload_file example_env example_request example_world)) = Some example_record"
    by (rule example_upload_appended)
  have shown: "fst (upload_file example_env example_request example_world)
      = Inr (Result_page example_page)"
    by (simp add: example_upload)
  from upload_file_placeholder_dimensions [of example_world example_env example_request]
    stored shown
  show ?thesis by simp
qed

text \<open>
  C2. Every call records the same fixed output path: the \<open>output_filename\<close> of the
  record that \<open>upload_file\<close> or \<open>sample\<close> stores is \<open>output_image.jpg\<close>, and the image
  URL of the page they render is \<open>/output_image.jpg\<close>, whatever the request and the image.
\<close>

theorem output_filename_is_fixed:
  "(\<forall>r. appended_record w (snd (upload_file env req w)) = Some r \<longrightarrow>
        output_filename r = ''output_image.jpg'') \<and>
   (\<forall>pg. fst (upload_file env req w) = Inr (Result_page pg) \<longrightarrow>
        kw_image_url pg = ''/output_image.jpg'') \<and>
   (\<forall>r. appended_record w (snd (sample env w)) = Some r \<longrightarrow>
        output_filename r = ''output_image.jpg'') \<and>
   (\<forall>pg. fst (sample env w) = Inr (Result_page pg) \<longrightarrow>
        kw_image_url pg = ''/output_image.jpg'')"
proof -
  have up: "(\<forall>r. appended_record w (snd (upload_file env req w)) = Some r \<longrightarrow>
        output_filename r = ''output_image.jpg'') \<and>
      (\<forall>pg. fst (upload_file env req w) = Inr (Result_page pg) \<longrightarrow>
        kw_image_url pg = ''/output_image.jpg'')"
  proof (cases rule: upload_file_cases [of env req w])
    case redirect
    then show ?thesis by (simp add: appended_record_same)
  next
    case (raised e w')
    then show ?thesis by (simp add: appended_record_same)
  next
    case (rendered f rs v)
    note run = process_upload_rendered [OF rendered(3,4,5)]
    from rendered(1,2) have "upload_file env req w = process_upload env req f w"
      by (rule upload_file_process)
    with run show ?thesis
      by (auto simp: appended_record_save_measurement snd_call_measure_object
               split: option.splits)
  qed
  have sm: "(\<forall>r. appended_record w (snd (sample env w)) = Some r \<longrightarrow>
        output_filename r = ''output_image.jpg'') \<and>
      (\<forall>pg. fst (sample env w) = Inr (Result_page pg) \<longrightarrow>
        kw_image_url pg = ''/output_image.jpg'')"
  proof (cases rule: sample_cases [of env w])
    case (raised e w')
    then show ?thesis by (simp add: appended_record_same)
  next
    case (rendered p v)
    from sample_rendered [OF rendered] show ?thesis
      by (auto simp: appended_record_save_measurement snd_call_measure_object
               split: option.splits)
  qed
  from up sm show ?thesis by simp
qed

theorem output_filename_is_fixed_witness:
  "appended_record example_world (snd (upload_file example_env example_request example_world))
     = Some example_record \<and>
   output_filename example_record = ''output_image.jpg'' \<and>
   fst (upload_file example_env example_request example_world) = Inr (Result_page example_page) \<and>
   kw_image_url example_page = ''/output_image.jpg'' \<and>
   (\<exists>r pg. appended_record example_world (snd (sample example_env example_world)) = Some r \<and>
      output_filename r = ''output_image.jpg'' \<and>
      fst (sample example_env example_world) = Inr (Result_page pg) \<and>
      kw_image_url pg = ''/output_image.jpg'')"
proof -
  have stored: "appended_record example_world
      (snd (upload_file example_env example_request example_world)) = Some example_record"
    by (rule example_upload_appended)
  have shown: "fst (upload_file example_env example_request example_world)
      = Inr (Result_page example_page)"
    by (simp add: example_upload)
  from sample_rendered [OF example_sample_pieces(1,2), of example_world]
  obtain pg md where run: "sample example_env example_world =
      (Inr (Result_page pg),
       save_measurement example_env md
         (snd (call_measure_object example_env ''sample_image.jpg'' None example_world)))"
    by blast
  then have s_stored: "appended_record example_world (snd (sample example_env example_world)) = Some md"
    by (simp add: appended_record_save_measurement snd_call_measure_object example_sample_pieces(3))
  from run have s_shown: "fst (sample example_env example_world) = Inr (Result_page pg)"
    by simp
  from output_filename_is_fixed [of example_world example_env example_request]
    stored shown s_stored s_shown
  show ?thesis by simp
qed

text \<open>
  C10. An upload request with no \<open>file\<close> part, or whose file has an empty name, is
  answered by a redirect to \<open>/\<close> and changes nothing: \<open>measure_object\<close> is not called,
  no file is saved, and the store is as it was.
\<close>

theorem upload_file_without_file_has_no_effect:
  assumes "map_of (files req) ''file'' = None \<or>
           (\<exists>f. map_of (files req) ''file'' = Some f \<and> filename f = [])"
  shows "fst (upload_file env req w) = Inr (Redirect ''/'') \<and>
         snd (upload_file env req w) = w \<and>
         engine_calls (snd (upload_file env req w)) = engine_calls w \<and>
         disk_files (snd (upload_file env req w)) = disk_files w \<and>
         store (snd (upload_file env req w)) = store w"
proof -
  from assms have "upload_file env req w = (Inr (Redirect ''/''), w)"
    by (auto simp: upload_file_def)
  then show ?thesis by simp
qed

theorem upload_file_without_file_has_no_effect_witness:
  "map_of (files request_without_file) ''file'' = None \<and>
   upload_file example_env request_without_file example_world
     = (Inr (Redirect ''/''), example_world) \<and>
   map_of (files request_empty_filename) ''file'' = Some \<lparr>filename = [], payload = []\<rparr> \<and>
   upload_file example_env request_empty_filename example_world
     = (Inr (Redirect ''/''), example_world)"
proof -
  have a: "map_of (files request_without_file) ''file'' = None"
    by (simp add: request_without_file_def)
  have b: "map_of (files request_empty_filename) ''file'' = Some \<lparr>filename = [], payload = []\<rparr>"
    by (simp add: request_empty_filename_def)
  from b have b': "\<exists>f. map_of (files request_empty_filename) ''file'' = Some f \<and> filename f = []"
    by simp
  from upload_file_without_file_has_no_effect [of request_without_file example_env example_world]
       upload_file_without_file_has_no_effect [of request_empty_filename example_env example_world]
       a b b'
  show ?thesis by (simp add: prod_eq_iff)
qed

section \<open>Calls of the engine, and the GPS fields\<close>

text \<open>What the handlers compute from the form does not depend on the engine.\<close>

lemma pieces_ignore_engine:
  "reference_size_arg (env\<lparr>measure_object := eng\<rparr>) req = reference_size_arg env req"
  "parse_gps (env\<lparr>measure_object := eng\<rparr>) a b c = parse_gps env a b c"
  "parse_weather (env\<lparr>measure_object := eng\<rparr>) x = parse_weather env x"
  "find_category (env\<lparr>measure_object := eng\<rparr>) cat = find_category env cat"
  "upload_filename (env\<lparr>measure_object := eng\<rparr>) f = upload_filename env f"
  "upload_filepath (env\<lparr>measure_object := eng\<rparr>) f = upload_filepath env f"
  by (simp_all add: reference_size_arg_def parse_gps_def float_if_present_def parse_weather_def
        find_category_def upload_filename_def upload_filepath_def
        cong: option.case_cong sum.case_cong if_cong)

lemma pieces_ignore_store_write:
  "reference_size_arg (env\<lparr>store_write := sw\<rparr>) req = reference_size_arg env req"
  "parse_gps (env\<lparr>store_write := sw\<rparr>) a b c = parse_gps env a b c"
  "parse_weather (env\<lparr>store_write := sw\<rparr>) x = parse_weather env x"
  "find_category (env\<lparr>store_write := sw\<rparr>) cat = find_category env cat"
  "upload_filename (env\<lparr>store_write := sw\<rparr>) f = upload_filename env f"
  "upload_filepath (env\<lparr>store_write := sw\<rparr>) f = upload_filepath env f"
  by (simp_all add: reference_size_arg_def parse_gps_def float_if_present_def parse_weather_def
        find_category_def upload_filename_def upload_filepath_def
        cong: option.case_cong sum.case_cong if_cong)

lemma engine_calls_upload_file:
  assumes "map_of (files req) ''file'' = Some f" and "filename f \<noteq> []"
    and "reference_size_arg env req = Inr rs" and "file_save env = None"
  shows "engine_calls (snd (upload_file env req w)) =
           engine_calls w @ [(upload_filepath env f, Some rs)]"
proof -
  from assms(1,2) have up: "upload_file env req w = process_upload env req f w"
    by (rule upload_file_process)
  show ?thesis
  proof (cases "outcome (measure_object env
            ((disk_files w)(upload_filepath env f \<mapsto> payload f))
            (upload_filepath env f) (Some rs))")
    case (Inl e)
    from process_upload_engine_raises [OF assms(3,4) Inl] up show ?thesis
      by (simp add: snd_call_measure_object)
  next
    case (Inr v)
    from process_upload_rendered [OF assms(3,4) Inr] up show ?thesis
      by (simp add: snd_call_measure_object save_measurement_frame)
  qed
qed



lemma parse_gps_atomic:
  "parse_gps env a b c =
     (if conversion_raises env a \<or> conversion_raises env b \<or> conversion_raises env c
      then (None, None, None)
      else (float_value env a, float_value env b, float_value env c))"
  by (auto simp: parse_gps_def float_if_present_def conversion_raises_def float_value_def
           split: option.splits sum.splits)


lemma example_bad_longitude_pieces:
  "map_of (files request_bad_longitude) ''file'' = Some \<lparr>filename = ''photo.jpg'', payload = ''JFIF''\<rparr>"
  "reference_size_arg example_env request_bad_longitude = Inr (Fin 30)"
  "\<not> conversion_raises example_env (form_get request_bad_longitude ''latitude'')"
  "conversion_raises example_env (form_get request_bad_longitude ''longitude'')"
  "\<not> conversion_raises example_env (form_get request_bad_longitude ''accuracy'')"
  by (simp_all add: request_bad_longitude_def form_get_def reference_size_arg_def
        conversion_raises_def example_env_def float_table_def)

lemma example_gps_pieces:
  "\<not> conversion_raises example_env (form_get example_request ''latitude'')"
  "\<not> conversion_raises example_env (form_get example_request ''longitude'')"
  "\<not> conversion_raises example_env (form_get example_request ''accuracy'')"
  "float_value example_env (form_get example_request ''latitude'') = Some (Fin 51.5074)"
  "float_value example_env (form_get example_request ''longitude'') = Some (Fin (- 0.1278))"
  "float_value example_env (form_get example_request ''accuracy'') = Some (Fin 12.5)"
  by (simp_all add: example_request_def form_get_def float_value_def
        conversion_raises_def example_env_def float_table_def)

text \<open>A rendered upload appends its record exactly when the \<open>try\<close> block does not raise.\<close>

lemma appended_record_upload_file:
  assumes "map_of (files req) ''file'' = Some f" and "filename f \<noteq> []"
    and "reference_size_arg env req = Inr rs" and "file_save env = None"
    and "outcome (measure_object env ((disk_files w)(upload_filepath env f \<mapsto> payload f))
           (upload_filepath env f) (Some rs)) = Inr v"
    and "save_exception env w = None"
  shows "\<exists>r. appended_record w (snd (upload_file env req w)) = Some r"
proof -
  from assms(1,2) have "upload_file env req w = process_upload env req f w"
    by (rule upload_file_process)
  with process_upload_rendered [OF assms(3,4,5)] assms(6) show ?thesis
    by (simp add: appended_record_save_measurement snd_call_measure_object)
qed

text \<open>
  C9. The GPS fields are parsed atomically by \<open>upload_file\<close>: in the record a request
  stores, if converting any one of latitude, longitude or accuracy to float raises, all
  three are \<open>None\<close>; otherwise each is the float value of the string supplied, or \<open>None\<close>
  when the field is absent or empty.
\<close>

theorem gps_fields_parsed_atomically:
  assumes "appended_record w (snd (upload_file env req w)) = Some r"
  shows "(conversion_raises env (form_get req ''latitude'') \<or>
          conversion_raises env (form_get req ''longitude'') \<or>
          conversion_raises env (form_get req ''accuracy'') \<longrightarrow>
            latitude r = None \<and> longitude r = None \<and> accuracy r = None) \<and>
         (\<not> (conversion_raises env (form_get req ''latitude'') \<or>
             conversion_raises env (form_get req ''longitude'') \<or>
             conversion_raises env (form_get req ''accuracy'')) \<longrightarrow>
            latitude r = float_value env (form_get req ''latitude'') \<and>
            longitude r = float_value env (form_get req ''longitude'') \<and>
            accuracy r = float_value env (form_get req ''accuracy''))"
proof (cases rule: upload_file_cases [of env req w])
  case redirect
  with assms show ?thesis by (simp add: appended_record_same)
next
  case (raised e w')
  with assms show ?thesis by (simp add: appended_record_same)
next
  case (rendered f rs v)
  note run = process_upload_rendered [OF rendered(3,4,5)]
  from rendered(1,2) have "upload_file env req w = process_upload env req f w"
    by (rule upload_file_process)
  with run assms show ?thesis
    by (auto simp: appended_record_save_measurement snd_call_measure_object parse_gps_atomic
             split: option.splits)
qed

theorem gps_fields_parsed_atomically_witness:
  "(\<exists>r. appended_record example_world
          (snd (upload_file example_env request_bad_longitude example_world)) = Some r \<and>
        conversion_raises example_env (form_get request_bad_longitude ''longitude'') \<and>
        latitude r = None \<and> longitude r = None \<and> accuracy r = None) \<and>
   appended_record example_world (snd (upload_file example_env example_request example_world))
     = Some example_record \<and>
   \<not> conversion_raises example_env (form_get example_request ''latitude'') \<and>
   \<not> conversion_raises example_env (form_get example_request ''longitude'') \<and>
   \<not> conversion_raises example_env (form_get example_request ''accuracy'') \<and>
   latitude example_record = Some (Fin 51.5074) \<and>
   longitude example_record = Some (Fin (- 0.1278)) \<and>
   accuracy example_record = Some (Fin 12.5)"
proof -
  from appended_record_upload_file [OF example_bad_longitude_pieces(1) _
         example_bad_longitude_pieces(2) example_pieces(2) example_sample_pieces(2,3)]
  obtain r where r: "appended_record example_world
      (snd (upload_file example_env request_bad_longitude example_world)) = Some r"
    by auto
  from gps_fields_parsed_atomically [OF r] example_bad_longitude_pieces(4)
  have "latitude r = None \<and> longitude r = None \<and> accuracy r = None" by simp
  with r example_bad_longitude_pieces(4) have bad: "\<exists>r. appended_record example_world
          (snd (upload_file example_env request_bad_longitude example_world)) = Some r \<and>
        conversion_raises example_env (form_get request_bad_longitude ''longitude'') \<and>
        latitude r = None \<and> longitude r = None \<and> accuracy r = None"
    by blast
  from gps_fields_parsed_atomically [OF example_upload_appended] example_gps_pieces
  have "latitude example_record = Some (Fin 51.5074) \<and>
        longitude example_record = Some (Fin (- 0.1278)) \<and>
        accuracy example_record = Some (Fin 12.5)"
    by simp
  with bad example_upload_appended example_gps_pieces(1,2,3) show ?thesis by simp
qed



lemma variant_pieces:
  "reference_size_arg env_no_reference req = reference_size_arg example_env req"
  "file_save env_no_reference = None"
  "upload_filepath env_no_reference f = upload_filepath example_env f"
  "reference_size_arg env_engine_raises req = reference_size_arg example_env req"
  "file_save env_engine_raises = None"
  "upload_filepath env_engine_raises f = upload_filepath example_env f"
  "reference_size_arg env_read_only_store req = reference_size_arg example_env req"
  "file_save env_read_only_store = None"
  "upload_filepath env_read_only_store f = upload_filepath example_env f"
  "measure_object env_read_only_store = measure_object example_env"
  by (simp_all add: env_no_reference_def env_engine_raises_def env_read_only_store_def
        pieces_ignore_engine pieces_ignore_store_write example_pieces)

text \<open>The page of a rendered upload, whatever the engine returned and the store did.\<close>

lemma upload_file_page:
  assumes "map_of (files req) ''file'' = Some f" and "filename f \<noteq> []"
    and "reference_size_arg env req = Inr rs" and "file_save env = None"
    and "outcome (measure_object env ((disk_files w)(upload_filepath env f \<mapsto> payload f))
           (upload_filepath env f) (Some rs)) = Inr v"
  shows "fst (upload_file env req w) =
    Inr (Result_page
       \<lparr>kw_image_url = ''/output_image.jpg'',
        kw_width = Text ''Calculated automatically'',
        kw_height = Text ''Calculated automatically'',
        kw_reference_size = rs,
        kw_latitude = fst (parse_gps env (form_get req ''latitude'')
                        (form_get req ''longitude'') (form_get req ''accuracy'')),
        kw_longitude = fst (snd (parse_gps env (form_get req ''latitude'')
                        (form_get req ''longitude'') (form_get req ''accuracy''))),
        kw_accuracy = snd (snd (parse_gps env (form_get req ''latitude'')
                        (form_get req ''longitude'') (form_get req ''accuracy''))),
        kw_timestamp = now env,
        kw_weather_data = parse_weather env (form_get req ''weather''),
        kw_object_name = str_strip env (form_get_or req ''object_name'' []),
        kw_notes = str_strip env (form_get_or req ''notes'' []),
        kw_category_color =
          (case find_category env (form_get_or req ''category'' ''other'') of
             None \<Rightarrow> None | Some c \<Rightarrow> Some (cat_color c)),
        kw_category_name =
          (case find_category env (form_get_or req ''category'' ''other'') of
             None \<Rightarrow> ''Other'' | Some c \<Rightarrow> cat_name c),
        kw_measurement_id = uuid4 env 1\<rparr>)"
proof -
  from assms(1,2) have "upload_file env req w = process_upload env req f w"
    by (rule upload_file_process)
  with process_upload_rendered [OF assms(3,4,5)] show ?thesis by simp
qed

lemma upload_file_engine_raises:
  assumes "map_of (files req) ''file'' = Some f" and "filename f \<noteq> []"
    and "reference_size_arg env req = Inr rs" and "file_save env = None"
    and "outcome (measure_object env ((disk_files w)(upload_filepath env f \<mapsto> payload f))
           (upload_filepath env f) (Some rs)) = Inl e"
  shows "fst (upload_file env req w) = Inl e"
    and "store (snd (upload_file env req w)) = store w"
proof -
  from assms(1,2) have "upload_file env req w = process_upload env req f w"
    by (rule upload_file_process)
  with process_upload_engine_raises [OF assms(3,4,5)]
  show "fst (upload_file env req w) = Inl e" and "store (snd (upload_file env req w)) = store w"
    by (simp_all add: snd_call_measure_object)
qed

lemma example_page_of_any_engine:
  assumes "outcome (eng [example_path \<mapsto> ''JFIF''] example_path (Some (Fin 30))) = Inr v"
  shows "fst (upload_file (example_env\<lparr>measure_object := eng\<rparr>) example_request example_world)
           = Inr (Result_page example_page)"
proof -
  let ?env = "example_env\<lparr>measure_object := eng\<rparr>"
  let ?f = "\<lparr>filename = ''photo.jpg'', payload = ''JFIF''\<rparr>"
  have a: "reference_size_arg ?env example_request = Inr (Fin 30)"
    by (simp add: pieces_ignore_engine example_pieces)
  have b: "file_save ?env = None" by (simp add: example_pieces)
  have c: "outcome (measure_object ?env
             ((disk_files example_world)(upload_filepath ?env ?f \<mapsto> payload ?f))
             (upload_filepath ?env ?f) (Some (Fin 30))) = Inr v"
    using assms by (simp add: pieces_ignore_engine example_pieces example_world_def)
  have d: "filename ?f \<noteq> []" by simp
  have e: "now ?env = now example_env" "uuid4 ?env = uuid4 example_env"
     "str_strip ?env = str_strip example_env" by simp_all
  from upload_file_page [OF example_file d a b c] example_pieces(13) show ?thesis
    by (simp add: pieces_ignore_engine example_pieces example_page_def)
qed

lemma example_engine_outcomes:
  "outcome (engine_no_reference fs p r) = Inr (Inl NoReferenceFound)"
  "outcome (engine_raising fs p r) = Inl (PyExc ''ValueError'' ''Could not read the image'')"
  "measure_object env_no_reference = engine_no_reference"
  "measure_object env_engine_raises = engine_raising"
  by (simp_all add: engine_no_reference_def engine_raising_def env_no_reference_def
        env_engine_raises_def)

text \<open>
  C3 as stated fails: with an engine that returns the typed failure \<open>NoReferenceFound\<close>,
  \<open>upload_file\<close> calls it once and answers with the same result page as for a
  successful measurement; the failure is not reported.
\<close>

theorem engine_failure_not_reported:
  "outcome (measure_object env_no_reference [example_path \<mapsto> ''JFIF''] example_path
     (Some (Fin 30))) = Inr (Inl NoReferenceFound) \<and>
   engine_calls (snd (upload_file env_no_reference example_request example_world))
     = [(example_path, Some (Fin 30))] \<and>
   fst (upload_file env_no_reference example_request example_world)
     = Inr (Result_page example_page) \<and>
   fst (upload_file example_env example_request example_world)
     = Inr (Result_page example_page)"
proof -
  have a: "outcome (measure_object env_no_reference [example_path \<mapsto> ''JFIF''] example_path
     (Some (Fin 30))) = Inr (Inl NoReferenceFound)"
    by (simp add: example_engine_outcomes)
  have "engine_calls (snd (upload_file env_no_reference example_request example_world))
     = engine_calls example_world @
         [(upload_filepath env_no_reference \<lparr>filename = ''photo.jpg'', payload = ''JFIF''\<rparr>,
           Some (Fin 30))]"
    by (rule engine_calls_upload_file [OF example_file])
       (simp_all add: variant_pieces example_pieces)
  then have b: "engine_calls (snd (upload_file env_no_reference example_request example_world))
     = [(example_path, Some (Fin 30))]"
    by (simp add: variant_pieces example_pieces example_world_def)
  have c: "fst (upload_file env_no_reference example_request example_world)
     = Inr (Result_page example_page)"
    unfolding env_no_reference_def
    by (rule example_page_of_any_engine) (rule example_engine_outcomes)
  have d: "fst (upload_file example_env example_request example_world)
     = Inr (Result_page example_page)"
    by (simp add: example_upload)
  from a b c d show ?thesis by simp
qed

text \<open>
  C3 (as amended). \<open>upload_file\<close> does not look at what \<open>measure_object\<close> returns: for a
  request that reaches the engine, if the call returns, with a measurement or with a
  typed failure, the response is a result page, and it is the same page whatever engine
  returns there; only if the call raises does the request end without a result page,
  the exception leaving the handler and nothing being stored.
\<close>

theorem upload_file_ignores_engine_value:
  assumes "map_of (files req) ''file'' = Some f" and "filename f \<noteq> []"
    and "reference_size_arg env req = Inr rs" and "file_save env = None"
  shows "(\<forall>v. outcome (measure_object env ((disk_files w)(upload_filepath env f \<mapsto> payload f))
                 (upload_filepath env f) (Some rs)) = Inr v \<longrightarrow>
            (\<exists>pg. fst (upload_file env req w) = Inr (Result_page pg) \<and>
               (\<forall>eng v'. outcome (eng ((disk_files w)(upload_filepath env f \<mapsto> payload f))
                             (upload_filepath env f) (Some rs)) = Inr v' \<longrightarrow>
                  fst (upload_file (env\<lparr>measure_object := eng\<rparr>) req w) = Inr (Result_page pg)))) \<and>
         (\<forall>e. outcome (measure_object env ((disk_files w)(upload_filepath env f \<mapsto> payload f))
                 (upload_filepath env f) (Some rs)) = Inl e \<longrightarrow>
            fst (upload_file env req w) = Inl e \<and>
            store (snd (upload_file env req w)) = store w)"
proof (intro conjI allI impI)
  fix v
  assume ret: "outcome (measure_object env ((disk_files w)(upload_filepath env f \<mapsto> payload f))
                 (upload_filepath env f) (Some rs)) = Inr v"
  note page = upload_file_page [OF assms ret]
  have "fst (upload_file (env\<lparr>measure_object := eng\<rparr>) req w) = fst (upload_file env req w)"
    if other: "outcome (eng ((disk_files w)(upload_filepath env f \<mapsto> payload f))
                 (upload_filepath env f) (Some rs)) = Inr v'" for eng v'
  proof -
    let ?env = "env\<lparr>measure_object := eng\<rparr>"
    have a: "reference_size_arg ?env req = Inr rs"
      using assms(3) by (simp add: pieces_ignore_engine)
    have b: "file_save ?env = None" using assms(4) by simp
    have c: "outcome (measure_object ?env ((disk_files w)(upload_filepath ?env f \<mapsto> payload f))
               (upload_filepath ?env f) (Some rs)) = Inr v'"
      using other by (simp add: pieces_ignore_engine)
    from upload_file_page [OF assms(1,2) a b c] page show ?thesis
      by (simp add: pieces_ignore_engine)
  qed
  with page
  show "\<exists>pg. fst (upload_file env req w) = Inr (Result_page pg) \<and>
          (\<forall>eng v'. outcome (eng ((disk_files w)(upload_filepath env f \<mapsto> payload f))
                        (upload_filepath env f) (Some rs)) = Inr v' \<longrightarrow>
             fst (upload_file (env\<lparr>measure_object := eng\<rparr>) req w) = Inr (Result_page pg))"
    by simp
next
  fix e
  assume "outcome (measure_object env ((disk_files w)(upload_filepath env f \<mapsto> payload f))
            (upload_filepath env f) (Some rs)) = Inl e"
  from upload_file_engine_raises [OF assms this]
  show "fst (upload_file env req w) = Inl e" and "store (snd (upload_file env req w)) = store w"
    by simp_all
qed

theorem upload_file_ignores_engine_value_witness:
  "fst (upload_file example_env example_request example_world) = Inr (Result_page example_page) \<and>
   outcome (engine_no_reference [example_path \<mapsto> ''JFIF''] example_path (Some (Fin 30)))
     = Inr (Inl NoReferenceFound) \<and>
   fst (upload_file env_no_reference example_request example_world)
     = Inr (Result_page example_page) \<and>
   fst (upload_file env_engine_raises example_request example_world)
     = Inl (PyExc ''ValueError'' ''Could not read the image'') \<and>
   store (snd (upload_file env_engine_raises example_request example_world)) = Json_list []"
proof -
  let ?f = "\<lparr>filename = ''photo.jpg'', payload = ''JFIF''\<rparr>"
  have named: "filename ?f \<noteq> []" by simp
  have fs: "(disk_files example_world)(example_path \<mapsto> ''JFIF'') = [example_path \<mapsto> ''JFIF'']"
    by (simp add: example_world_def)
  from upload_file_ignores_engine_value [OF example_file named example_pieces(1,2),
         of example_world]
  have "\<exists>pg. fst (upload_file example_env example_request example_world) = Inr (Result_page pg) \<and>
          (\<forall>eng v'. outcome (eng [example_path \<mapsto> ''JFIF''] example_path (Some (Fin 30)))
                  = Inr v' \<longrightarrow>
             fst (upload_file (example_env\<lparr>measure_object := eng\<rparr>) example_request example_world)
               = Inr (Result_page pg))"
    by (simp add: example_pieces example_sample_pieces fs)
  then obtain pg where
    pg: "fst (upload_file example_env example_request example_world) = Inr (Result_page pg)"
    and any: "\<And>eng v'. outcome (eng [example_path \<mapsto> ''JFIF''] example_path (Some (Fin 30)))
                  = Inr v' \<Longrightarrow>
             fst (upload_file (example_env\<lparr>measure_object := eng\<rparr>) example_request example_world)
               = Inr (Result_page pg)"
    by blast
  from pg have is_example: "pg = example_page" by (simp add: example_upload)
  from any [of engine_no_reference, OF example_engine_outcomes(1)] is_example
  have nf: "fst (upload_file env_no_reference example_request example_world)
     = Inr (Result_page example_page)"
    by (simp add: env_no_reference_def)
  have r_in: "reference_size_arg env_engine_raises example_request = Inr (Fin 30)"
    by (simp add: variant_pieces example_pieces)
  from upload_file_ignores_engine_value [OF example_file named r_in variant_pieces(5),
         of example_world]
  have raised: "fst (upload_file env_engine_raises example_request example_world)
       = Inl (PyExc ''ValueError'' ''Could not read the image'') \<and>
     store (snd (upload_file env_engine_raises example_request example_world)) = Json_list []"
    by (simp add: example_engine_outcomes example_world_def)
  from pg is_example nf raised example_engine_outcomes(1) show ?thesis by simp
qed

section \<open>Persistence\<close>

text \<open>The response of \<open>upload_file\<close> does not depend on the store or on how writing it goes.\<close>

lemma upload_file_response_ignores_store:
  "fst (upload_file (env\<lparr>store_write := sw\<rparr>) req (w\<lparr>store := st\<rparr>)) = fst (upload_file env req w)"
proof (cases "map_of (files req) ''file''")
  case None
  then show ?thesis by (simp add: upload_file_redirect)
next
  case (Some f)
  let ?env = "env\<lparr>store_write := sw\<rparr>" and ?w = "w\<lparr>store := st\<rparr>"
  show ?thesis
  proof (cases "filename f = []")
    case True
    with Some show ?thesis by (simp add: upload_file_redirect)
  next
    case named: False
    show ?thesis
    proof (cases "reference_size_arg env req")
      case (Inl e)
      then have "reference_size_arg ?env req = Inl e" by (simp add: pieces_ignore_store_write)
      with Inl Some named show ?thesis
        by (simp add: upload_file_process process_upload_bad_size)
    next
      case (Inr rs)
      then have rs': "reference_size_arg ?env req = Inr rs"
        by (simp add: pieces_ignore_store_write)
      show ?thesis
      proof (cases "file_save env")
        case (Some e)
        then have "file_save ?env = Some e" by simp
        with Some Inr rs' \<open>map_of (files req) ''file'' = Some f\<close> named show ?thesis
          by (simp add: upload_file_process process_upload_save_raises)
      next
        case None
        then have saved': "file_save ?env = None" by simp
        show ?thesis
        proof (cases "outcome (measure_object env
                  ((disk_files w)(upload_filepath env f \<mapsto> payload f))
                  (upload_filepath env f) (Some rs))")
          case (Inl e)
          then have "outcome (measure_object ?env
                  ((disk_files ?w)(upload_filepath ?env f \<mapsto> payload f))
                  (upload_filepath ?env f) (Some rs)) = Inl e"
            by (simp add: pieces_ignore_store_write)
          from upload_file_engine_raises(1) [OF Some named rs' saved' this]
               upload_file_engine_raises(1) [OF Some named Inr None Inl]
          show ?thesis by simp
        next
          case eng: (Inr v)
          then have "outcome (measure_object ?env
                  ((disk_files ?w)(upload_filepath ?env f \<mapsto> payload f))
                  (upload_filepath ?env f) (Some rs)) = Inr v"
            by (simp add: pieces_ignore_store_write)
          from upload_file_page [OF Some named rs' saved' this]
               upload_file_page [OF Some named Inr None eng]
          show ?thesis by (simp add: pieces_ignore_store_write)
        qed
      qed
    qed
  qed
qed

lemma store_save_measurement_fails:
  "save_exception env w = Some e \<Longrightarrow> store (save_measurement env md w) = Json_list ms' \<Longrightarrow>
   store w = Json_list ms'"
  by (auto simp: save_exception_def save_measurement_def
           split: store_file.splits write_outcome.splits)

lemma save_exception_store_only:
  "store w2 = store w \<Longrightarrow> save_exception env w2 = save_exception env w"
  by (simp add: save_exception_def)

lemma example_save_exceptions:
  "save_exception env_read_only_store example_world = Some permission_denied"
  "save_exception example_env world_broken_store =
     Some (PyExc ''JSONDecodeError'' ''Expecting value: line 1 column 1 (char 0)'')"
  "env_read_only_store\<lparr>store_write := Write_ok\<rparr> = example_env"
  "example_env\<lparr>store_write := Write_ok\<rparr> = example_env"
  "example_world\<lparr>store := Json_list []\<rparr> = example_world"
  "world_broken_store\<lparr>store := Json_list []\<rparr> = example_world"
  "store example_world = Json_list []"
  by (simp_all add: save_exception_def env_read_only_store_def example_env_def
        example_world_def world_broken_store_def)

text \<open>
  C7. A failure of the persistence step is silent: if reading or writing
  \<open>measurements.json\<close> raises during \<open>upload_file\<close>, the handler returns the very result
  page it returns when the record is saved, no record is added to the store, and the
  only trace is the line \<open>Error saving measurement data: ...\<close> printed last on the console.
\<close>

theorem persistence_failure_is_silent:
  assumes "save_exception env w = Some e"
    and "fst (upload_file (env\<lparr>store_write := Write_ok\<rparr>) req (w\<lparr>store := Json_list ms\<rparr>))
           = Inr (Result_page pg)"
  shows "fst (upload_file env req w) = Inr (Result_page pg) \<and>
         appended_record w (snd (upload_file env req w)) = None \<and>
         (\<forall>ms'. store (snd (upload_file env req w)) = Json_list ms' \<longrightarrow> store w = Json_list ms') \<and>
         console (snd (upload_file env req w)) \<noteq> [] \<and>
         last (console (snd (upload_file env req w)))
           = ''Error saving measurement data: '' @ exc_str e"
proof -
  from assms(2) have page: "fst (upload_file env req w) = Inr (Result_page pg)"
    by (simp add: upload_file_response_ignores_store)
  show ?thesis
  proof (cases rule: upload_file_cases [of env req w])
    case redirect
    with page show ?thesis by simp
  next
    case (raised e' w')
    with page show ?thesis by simp
  next
    case (rendered f rs v)
    let ?w2 = "snd (call_measure_object env (upload_filepath env f) (Some rs)
                 (w\<lparr>disk_files := (disk_files w)(upload_filepath env f \<mapsto> payload f)\<rparr>))"
    have same: "store ?w2 = store w" by (simp add: snd_call_measure_object)
    from save_exception_store_only [OF same, of env] assms(1)
    have exc: "save_exception env ?w2 = Some e" by simp
    from rendered(1,2) have "upload_file env req w = process_upload env req f w"
      by (rule upload_file_process)
    with process_upload_rendered [OF rendered(3,4,5)]
    obtain md where run: "snd (upload_file env req w) = save_measurement env md ?w2"
      by simp
    have "appended_record w (snd (upload_file env req w)) = None"
      using assms(1) same by (simp add: run appended_record_save_measurement)
    moreover have "\<forall>ms'. store (snd (upload_file env req w)) = Json_list ms' \<longrightarrow>
        store w = Json_list ms'"
      using store_save_measurement_fails [OF exc] same by (simp add: run)
    moreover have "console (snd (upload_file env req w)) \<noteq> [] \<and>
        last (console (snd (upload_file env req w)))
          = ''Error saving measurement data: '' @ exc_str e"
      using exc by (simp add: run console_save_measurement save_error_line_def)
    ultimately show ?thesis using page by simp
  qed
qed

theorem persistence_failure_is_silent_witness:
  "save_exception env_read_only_store example_world = Some permission_denied \<and>
   fst (upload_file example_env example_request example_world) = Inr (Result_page example_page) \<and>
   fst (upload_file env_read_only_store example_request example_world)
     = Inr (Result_page example_page) \<and>
   appended_record example_world
     (snd (upload_file env_read_only_store example_request example_world)) = None \<and>
   last (console (snd (upload_file env_read_only_store example_request example_world)))
     = ''Error saving measurement data: [Errno 13] Permission denied: '' @ [CHR 0x27]
         @ ''results/measurements.json'' @ [CHR 0x27] \<and>
   fst (upload_file example_env example_request world_broken_store)
     = Inr (Result_page example_page) \<and>
   last (console (snd (upload_file example_env example_request world_broken_store)))
     = ''Error saving measurement data: Expecting value: line 1 column 1 (char 0)''"
proof -
  have page: "fst (upload_file example_env example_request example_world)
      = Inr (Result_page example_page)"
    by (simp add: example_upload)
  have twin1: "fst (upload_file (env_read_only_store\<lparr>store_write := Write_ok\<rparr>) example_request
      (example_world\<lparr>store := Json_list []\<rparr>)) = Inr (Result_page example_page)"
    by (simp only: example_save_exceptions page)
  have twin2: "fst (upload_file (example_env\<lparr>store_write := Write_ok\<rparr>) example_request
      (world_broken_store\<lparr>store := Json_list []\<rparr>)) = Inr (Result_page example_page)"
    by (simp only: example_save_exceptions page)
  from persistence_failure_is_silent [OF example_save_exceptions(1) twin1]
       persistence_failure_is_silent [OF example_save_exceptions(2) twin2]
       page example_save_exceptions(1)
  show ?thesis by (simp add: permission_denied_def)
qed

section \<open>The engine is called at most once\<close>






section \<open>Runs of uploads and the store\<close>

text \<open>What one upload request does to the store.\<close>

lemma store_after_upload_file [case_names same appended broken]:
  obtains
    (same) "store (snd (upload_file env req w)) = store w"
  | (appended) ms r where "store w = Json_list ms"
      and "store (snd (upload_file env req w)) = Json_list (ms @ [r])"
      and "id' r = uuid4 env 1"
  | (broken) ms later where "store w = Json_list ms"
      and "store (snd (upload_file env req w)) = Broken later"
proof (cases rule: upload_file_cases [of env req w])
  case redirect
  then show ?thesis by (intro same) simp
next
  case (raised e w')
  then show ?thesis by (intro same) simp
next
  case (rendered f rs v)
  let ?w2 = "snd (call_measure_object env (upload_filepath env f) (Some rs)
               (w\<lparr>disk_files := (disk_files w)(upload_filepath env f \<mapsto> payload f)\<rparr>))"
  have w2: "store ?w2 = store w" by (simp add: snd_call_measure_object)
  from rendered(1,2) have "upload_file env req w = process_upload env req f w"
    by (rule upload_file_process)
  with process_upload_rendered [OF rendered(3,4,5)]
  obtain md where run: "snd (upload_file env req w) = save_measurement env md ?w2"
    and md: "id' md = uuid4 env 1"
    by simp
  show ?thesis
  proof (cases "store w")
    case (Broken e)
    with w2 have "store (save_measurement env md ?w2) = store w"
      by (simp add: save_measurement_def)
    with run show ?thesis by (intro same) simp
  next
    case (Json_list ms)
    show ?thesis
    proof (cases "store_write env")
      case Write_ok
      with Json_list w2 have "store (save_measurement env md ?w2) = Json_list (ms @ [md])"
        by (simp add: save_measurement_def)
      with run have "store (snd (upload_file env req w)) = Json_list (ms @ [md])" by simp
      with Json_list show ?thesis using md by (rule appended)
    next
      case (Open_raises e)
      with Json_list w2 have "store (save_measurement env md ?w2) = store w"
        by (simp add: save_measurement_def)
      with run show ?thesis by (intro same) simp
    next
      case (Dump_raises e later)
      with Json_list w2 have "store (save_measurement env md ?w2) = Broken later"
        by (simp add: save_measurement_def)
      with run have "store (snd (upload_file env req w)) = Broken later" by simp
      with Json_list show ?thesis by (rule broken)
    qed
  qed
qed

lemma serve_uploads_broken:
  "store w = Broken e \<Longrightarrow> store (serve_uploads run w) = Broken e"
proof (induction run arbitrary: w)
  case Nil
  then show ?case by simp
next
  case (Cons er rest)
  have "store (snd (upload_file (fst er) (snd er) w)) = Broken e"
    by (cases rule: store_after_upload_file [of "fst er" "snd er" w])
       (simp_all add: Cons.prems)
  then show ?case by (simp add: Cons.IH)
qed

text \<open>Over a run, the ids in the store stay pairwise distinct if the draws do not repeat.\<close>

lemma serve_uploads_distinct_ids:
  assumes "store w = Json_list ms0"
    and "distinct (map id' ms0 @ map (\<lambda>er. uuid4 (fst er) 1) run)"
    and "store (serve_uploads run w) = Json_list ms"
  shows "distinct (map id' ms)"
  using assms
proof (induction run arbitrary: w ms0)
  case Nil
  then show ?case by simp
next
  case (Cons er rest)
  let ?w1 = "snd (upload_file (fst er) (snd er) w)"
  from Cons.prems(3) have final: "store (serve_uploads rest ?w1) = Json_list ms" by simp
  show ?case
  proof (cases rule: store_after_upload_file [of "fst er" "snd er" w])
    case same
    with Cons.prems(1) have "store ?w1 = Json_list ms0" by simp
    moreover from Cons.prems(2)
    have "distinct (map id' ms0 @ map (\<lambda>er. uuid4 (fst er) 1) rest)" by simp
    ultimately show ?thesis using final by (rule Cons.IH)
  next
    case (appended ms' r)
    with Cons.prems(1) have eq: "ms' = ms0" by simp
    with appended have "store ?w1 = Json_list (ms0 @ [r])" by simp
    moreover from Cons.prems(2) appended(3)
    have "distinct (map id' (ms0 @ [r]) @ map (\<lambda>er. uuid4 (fst er) 1) rest)" by simp
    ultimately show ?thesis using final by (rule Cons.IH)
  next
    case (broken ms' later)
    then have "store (serve_uploads rest ?w1) = Broken later"
      by (simp add: serve_uploads_broken)
    with final show ?thesis by simp
  qed
qed

text \<open>When the \<open>try\<close> block around the store raises, the request appends nothing.\<close>

lemma upload_file_save_raises_appends_nothing:
  assumes "save_exception env w = Some e"
  shows "appended_record w (snd (upload_file env req w)) = None"
    and "store (snd (upload_file env req w)) = Json_list ms' \<Longrightarrow> store w = Json_list ms'"
proof -
  show "appended_record w (snd (upload_file env req w)) = None"
  proof (cases rule: store_after_upload_file [of env req w])
    case same
    then show ?thesis by (rule appended_record_same)
  next
    case (appended ms r)
    have False
    proof (cases rule: upload_file_cases [of env req w])
      case redirect
      with appended show False by simp
    next
      case (raised e' w')
      with appended show False by simp
    next
      case (rendered f rs v)
      let ?w2 = "snd (call_measure_object env (upload_filepath env f) (Some rs)
               (w\<lparr>disk_files := (disk_files w)(upload_filepath env f \<mapsto> payload f)\<rparr>))"
      have w2: "store ?w2 = store w" by (simp add: snd_call_measure_object)
      from save_exception_store_only [OF w2, of env] assms
      have exc: "save_exception env ?w2 = Some e" by simp
      from rendered(1,2) have "upload_file env req w = process_upload env req f w"
        by (rule upload_file_process)
      with process_upload_rendered [OF rendered(3,4,5)]
      obtain md where run: "snd (upload_file env req w) = save_measurement env md ?w2"
        by simp
      from store_save_measurement_fails [OF exc, of md "ms @ [r]"] appended(2) run w2
      have "store w = Json_list (ms @ [r])" by simp
      with appended(1) show False by simp
    qed
    then show ?thesis ..
  next
    case (broken ms later)
    then show ?thesis by (simp add: appended_record_def)
  qed
  then show "store w = Json_list ms'" if "store (snd (upload_file env req w)) = Json_list ms'"
  proof (cases rule: store_after_upload_file [of env req w])
    case same
    with that show ?thesis by simp
  next
    case (appended ms r)
    with \<open>appended_record w (snd (upload_file env req w)) = None\<close>
    show ?thesis by (simp add: appended_record_def)
  next
    case (broken ms later)
    with that show ?thesis by simp
  qed
qed

section \<open>One record per upload\<close>

lemma second_env_pieces:
  "reference_size_arg second_env example_request = Inr (Fin 30)"
  "file_save second_env = None"
  "store_write second_env = Write_ok"
  "outcome (measure_object second_env fs p r) =
     Inr (Inr \<lparr>result_width_mm = Fin 48.52, result_height_mm = Fin 24.26\<rparr>)"
  "uuid4 second_env 1 = ''c0a8012e-7d3b-4f6a-9e2d-5b1a6c3d8f42''"
  "uuid4 example_env 1 = ''6fa459ea-ee8a-4ca4-894e-db77e160355e''"
  "id' example_record = ''6fa459ea-ee8a-4ca4-894e-db77e160355e''"
  by (simp_all add: second_env_def example_env_def reference_size_arg_def form_get_def
        example_request_def float_table_def engine_measuring_def example_record_def)

lemma example_first_store:
  "store (snd (upload_file example_env example_request example_world)) = Json_list [example_record]"
  by (simp add: example_upload)

text \<open>
  C4 as stated fails: the example upload has a file with a name, yet when
  \<open>measurements.json\<close> cannot be opened for writing the store is left as it was, without
  the record, and the request is still answered with the result page.
\<close>

theorem upload_with_unwritable_store_appends_nothing:
  "map_of (files example_request) ''file'' = Some \<lparr>filename = ''photo.jpg'', payload = ''JFIF''\<rparr> \<and>
   store example_world = Json_list [] \<and>
   store (snd (upload_file env_read_only_store example_request example_world)) = Json_list [] \<and>
   fst (upload_file env_read_only_store example_request example_world)
     = Inr (Result_page example_page)"
proof -
  let ?f = "\<lparr>filename = ''photo.jpg'', payload = ''JFIF''\<rparr>"
  have named: "filename ?f \<noteq> []" by simp
  have rs: "reference_size_arg env_read_only_store example_request = Inr (Fin 30)"
    by (simp add: variant_pieces example_pieces)
  have eng: "outcome (measure_object env_read_only_store
      ((disk_files example_world)(upload_filepath env_read_only_store ?f \<mapsto> payload ?f))
      (upload_filepath env_read_only_store ?f) (Some (Fin 30)))
      = Inr (Inr \<lparr>result_width_mm = Fin 48.52, result_height_mm = Fin 24.26\<rparr>)"
    by (simp add: variant_pieces example_sample_pieces)
  have up: "upload_file env_read_only_store example_request example_world
      = process_upload env_read_only_store example_request ?f example_world"
    by (rule upload_file_process [OF example_file named])
  have wr: "store_write env_read_only_store = Open_raises permission_denied"
    by (simp add: env_read_only_store_def)
  have "store (snd (upload_file env_read_only_store example_request example_world))
      = Json_list []"
    unfolding up process_upload_rendered [OF rs variant_pieces(8) eng]
    by (simp add: save_measurement_def snd_call_measure_object wr example_save_exceptions(7))
  moreover have "fst (upload_file env_read_only_store example_request example_world)
     = Inr (Result_page example_page)"
    using upload_file_response_ignores_store
      [where env = example_env and sw = "Open_raises permission_denied"
         and req = example_request and w = example_world and st = "Json_list []"]
    by (simp add: example_save_exceptions(5) env_read_only_store_def example_upload)
  ultimately show ?thesis by (simp add: example_file example_save_exceptions(7))
qed

text \<open>
  C4 (as amended). For an upload request with a named file, \<open>upload_file\<close> appends
  exactly one record to the store, provided the request gets as far as saving it (its
  \<open>reference_size\<close> parses, \<open>file.save\<close> and \<open>measure_object\<close> do not raise) and
  \<open>measurements.json\<close> loads as a list and can be written; when loading or writing the
  store raises, nothing is appended. The record holds the GPS fields (parsed as floats),
  the weather data (parsed from JSON, \<open>None\<close> when absent or unparsable), the category
  (default \<open>other\<close>), the object name and the notes (stripped), together with a fresh
  unique id and the timestamp: the id is a value drawn from \<open>uuid4\<close> for this record, so
  that over any run of uploads in which \<open>uuid4\<close> does not repeat a value or an id already
  in use, the ids in the store are pairwise distinct; the timestamp is the clock reading.
\<close>

theorem upload_file_appends_one_record:
  "(map_of (files req) ''file'' = Some f \<and> filename f \<noteq> [] \<and>
    reference_size_arg env req = Inr rs \<and> file_save env = None \<and>
    outcome (measure_object env ((disk_files w)(upload_filepath env f \<mapsto> payload f))
      (upload_filepath env f) (Some rs)) = Inr v \<and>
    store w = Json_list ms \<and> store_write env = Write_ok \<longrightarrow>
      store (snd (upload_file env req w)) =
        Json_list (ms @
          [\<lparr>id' = uuid4 env 1,
            timestamp = now env,
            image_filename = upload_filename env f,
            output_filename = ''output_image.jpg'',
            reference_size_mm = rs,
            width_mm = Text ''Calculated automatically'',
            height_mm = Text ''Calculated automatically'',
            object_name = str_strip env (form_get_or req ''object_name'' []),
            notes' = str_strip env (form_get_or req ''notes'' []),
            category = form_get_or req ''category'' ''other'',
            category_data = find_category env (form_get_or req ''category'' ''other''),
            latitude = fst (parse_gps env (form_get req ''latitude'')
                         (form_get req ''longitude'') (form_get req ''accuracy'')),
            longitude = fst (snd (parse_gps env (form_get req ''latitude'')
                         (form_get req ''longitude'') (form_get req ''accuracy''))),
            accuracy = snd (snd (parse_gps env (form_get req ''latitude'')
                         (form_get req ''longitude'') (form_get req ''accuracy''))),
            weather_data = parse_weather env (form_get req ''weather'')\<rparr>])) \<and>
   (save_exception env w = Some e \<longrightarrow>
      appended_record w (snd (upload_file env req w)) = None \<and>
      (\<forall>ms'. store (snd (upload_file env req w)) = Json_list ms' \<longrightarrow> store w = Json_list ms')) \<and>
   (store w0 = Json_list ms0 \<and> uuid4_never_repeats (map id' ms0) run \<and>
    store (serve_uploads run w0) = Json_list ms1 \<longrightarrow>
      distinct (map id' ms1))"
proof (intro conjI impI)
  assume reach: "map_of (files req) ''file'' = Some f \<and> filename f \<noteq> [] \<and>
    reference_size_arg env req = Inr rs \<and> file_save env = None \<and>
    outcome (measure_object env ((disk_files w)(upload_filepath env f \<mapsto> payload f))
      (upload_filepath env f) (Some rs)) = Inr v \<and>
    store w = Json_list ms \<and> store_write env = Write_ok"
  let ?w2 = "snd (call_measure_object env (upload_filepath env f) (Some rs)
               (w\<lparr>disk_files := (disk_files w)(upload_filepath env f \<mapsto> payload f)\<rparr>))"
  from reach have "store ?w2 = Json_list ms"
    by (simp add: snd_call_measure_object)
  moreover from reach have "store_write env = Write_ok" by simp
  ultimately have saved: "store (save_measurement env md ?w2) = Json_list (ms @ [md])" for md
    by (rule store_save_measurement_ok)
  from reach have "upload_file env req w = process_upload env req f w"
    by (simp add: upload_file_process)
  moreover from reach have "reference_size_arg env req = Inr rs" "file_save env = None"
    "outcome (measure_object env ((disk_files w)(upload_filepath env f \<mapsto> payload f))
      (upload_filepath env f) (Some rs)) = Inr v"
    by simp_all
  note process_upload_rendered [OF this]
  ultimately show "store (snd (upload_file env req w)) =
        Json_list (ms @
          [\<lparr>id' = uuid4 env 1,
            timestamp = now env,
            image_filename = upload_filename env f,
            output_filename = ''output_image.jpg'',
            reference_size_mm = rs,
            width_mm = Text ''Calculated automatically'',
            height_mm = Text ''Calculated automatically'',
            object_name = str_strip env (form_get_or req ''object_name'' []),
            notes' = str_strip env (form_get_or req ''notes'' []),
            category = form_get_or req ''category'' ''other'',
            category_data = find_category env (form_get_or req ''category'' ''other''),
            latitude = fst (parse_gps env (form_get req ''latitude'')
                         (form_get req ''longitude'') (form_get req ''accuracy'')),
            longitude = fst (snd (parse_gps env (form_get req ''latitude'')
                         (form_get req ''longitude'') (form_get req ''accuracy''))),
            accuracy = snd (snd (parse_gps env (form_get req ''latitude'')
                         (form_get req ''longitude'') (form_get req ''accuracy''))),
            weather_data = parse_weather env (form_get req ''weather'')\<rparr>])"
    by (simp add: saved)
next
  assume "save_exception env w = Some e"
  then show "appended_record w (snd (upload_file env req w)) = None"
    by (rule upload_file_save_raises_appends_nothing(1))
next
  assume exc: "save_exception env w = Some e"
  show "\<forall>ms'. store (snd (upload_file env req w)) = Json_list ms' \<longrightarrow> store w = Json_list ms'"
    using upload_file_save_raises_appends_nothing(2) [OF exc] by blast
next
  assume "store w0 = Json_list ms0 \<and> uuid4_never_repeats (map id' ms0) run \<and>
    store (serve_uploads run w0) = Json_list ms1"
  then have "store w0 = Json_list ms0"
    and "distinct (map id' ms0 @ map (\<lambda>er. uuid4 (fst er) 1) run)"
    and "store (serve_uploads run w0) = Json_list ms1"
    by (simp_all add: uuid4_never_repeats_def)
  then show "distinct (map id' ms1)" by (rule serve_uploads_distinct_ids)
qed

theorem upload_file_appends_one_record_witness:
  "map_of (files example_request) ''file'' = Some \<lparr>filename = ''photo.jpg'', payload = ''JFIF''\<rparr> \<and>
   reference_size_arg example_env example_request = Inr (Fin 30) \<and>
   file_save example_env = None \<and>
   store example_world = Json_list [] \<and>
   store_write example_env = Write_ok \<and>
   store (snd (upload_file example_env example_request example_world))
     = Json_list [example_record] \<and>
   save_exception env_read_only_store example_world = Some permission_denied \<and>
   appended_record example_world
     (snd (upload_file env_read_only_store example_request example_world)) = None \<and>
   uuid4_never_repeats []
     [(example_env, example_request), (second_env, example_request)] \<and>
   (\<exists>r2. store (serve_uploads [(example_env, example_request), (second_env, example_request)]
              example_world) = Json_list [example_record, r2] \<and>
      id' r2 = ''c0a8012e-7d3b-4f6a-9e2d-5b1a6c3d8f42'' \<and>
      distinct (map id' [example_record, r2]))"
proof -
  let ?f = "\<lparr>filename = ''photo.jpg'', payload = ''JFIF''\<rparr>"
  let ?w1 = "snd (upload_file example_env example_request example_world)"
  let ?run = "[(example_env, example_request), (second_env, example_request)]"
  have named: "filename ?f \<noteq> []" by simp
  from upload_file_appends_one_record
         [where env = example_env and req = example_request and w = example_world
            and f = ?f and rs = "Fin 30" and ms = "[]"]
       example_file named example_pieces(1,2,3) example_sample_pieces(2)
       example_save_exceptions(7) example_pieces(13)
  have first: "store ?w1 = Json_list [example_record]"
    by (simp add: example_pieces example_record_def)
  from upload_file_appends_one_record
         [where env = env_read_only_store and req = example_request and w = example_world
            and e = permission_denied]
       example_save_exceptions(1)
  have unsaved: "appended_record example_world
     (snd (upload_file env_read_only_store example_request example_world)) = None"
    by simp
  from upload_file_appends_one_record
         [where env = second_env and req = example_request and w = ?w1
            and f = ?f and rs = "Fin 30" and ms = "[example_record]"]
       example_file named second_env_pieces(1,2,3,4) first
  obtain r2 where second: "store (snd (upload_file second_env example_request ?w1))
       = Json_list [example_record, r2]"
    and id2: "id' r2 = uuid4 second_env 1"
    by simp
  have never: "uuid4_never_repeats [] ?run"
    using second_env_pieces(5,6) by (simp add: uuid4_never_repeats_def)
  from second have final: "store (serve_uploads ?run example_world) = Json_list [example_record, r2]"
    by simp
  from upload_file_appends_one_record
         [where ?w0.0 = example_world and ?ms0.0 = "[]" and run = ?run
            and ?ms1.0 = "[example_record, r2]"]
       example_save_exceptions(7) never final
  have "distinct (map id' [example_record, r2])" by simp
  with final id2 second_env_pieces(5)
  have both: "\<exists>r2. store (serve_uploads ?run example_world) = Json_list [example_record, r2] \<and>
      id' r2 = ''c0a8012e-7d3b-4f6a-9e2d-5b1a6c3d8f42'' \<and>
      distinct (map id' [example_record, r2])"
    by (intro exI [of _ r2]) simp
  from example_file example_pieces(1,2,3) example_save_exceptions(7) first
       example_save_exceptions(1) unsaved never both
  show ?thesis by blast
qed

end
